theory Spec2Isabelle
  imports Complex_Main "HOL-Library.AList"
begin

section \<open>Python values and exceptions\<close>

text \<open>
  The exceptions that the modelled code can raise, as values.  A function that can raise
  returns \<open>error + 'a\<close>, with \<open>Inl\<close> for the exception.
\<close>

datatype error =
    ColumnNotFoundError string
  | IndexError
  | ValueError
  | InvalidOperationError
  | ShapeError
  | OSError
  | WorksheetError
  | FitError string

text \<open>Python's \<open>xs[i]\<close> for a non-negative index: out of range raises.\<close>

definition getitem :: "'a list \<Rightarrow> nat \<Rightarrow> error + 'a" where
  "getitem xs i = (if i < length xs then Inr (xs ! i) else Inl IndexError)"

text \<open>\<^verbatim>\<open>if v is None: v = d\<close>\<close>

definition default_to :: "'a \<Rightarrow> 'a option \<Rightarrow> 'a" where
  "default_to d v = (case v of None \<Rightarrow> d | Some x \<Rightarrow> x)"

section \<open>models.py: the growth model\<close>

text \<open>
  \<^verbatim>\<open>return A * np.exp(-np.exp((B * np.e / A) * (C - t) + 1))\<close>

  Doubles are idealised as reals and \<open>np.e\<close> is \<open>exp 1\<close>.  The quotient by \<open>A\<close> has
  no real value at \<open>A = 0\<close> (a ZeroDivisionError on Python floats, a non-finite double
  on numpy floats): the model returns \<open>None\<close> there.
\<close>

definition gompertz :: "real \<Rightarrow> real \<Rightarrow> real \<Rightarrow> real \<Rightarrow> real option" where
  "gompertz t A B C =
     (if A = 0 then None
      else Some (A * exp (- exp ((B * exp 1 / A) * (C - t) + 1))))"

text \<open>
  The growth function as the specification writes it:
  value(t; A, B, C) = A * exp(- exp((B * e / A) * (C - t) + 1)), with e Euler's number.
\<close>

definition euler_e :: real where
  "euler_e = (\<Sum>n. inverse (fact n))"

definition growth_value :: "real \<Rightarrow> real \<Rightarrow> real \<Rightarrow> real \<Rightarrow> real" where
  "growth_value t A B C = A * exp (- exp (((B * euler_e) / A) * (C - t) + 1))"

section \<open>models.py: fitting\<close>

text \<open>
  An lmfit parameter: its value and its bounds.  lmfit's defaults are \<open>min = -inf\<close> and
  \<open>max = inf\<close>; an infinite bound is \<open>None\<close>.  \<open>Parameters\<close> is an ordered dict from
  names to parameters.
\<close>

record parameter =
  pvalue :: real
  pmin :: "real option"
  pmax :: "real option"

type_synonym parameters = "(string \<times> parameter) list"

text \<open>
  \<^verbatim>\<open>model.make_params(A=A, B=B, C=C)\<close>: one parameter for each argument of \<open>gompertz\<close>
  after the independent variable \<open>t\<close>, with the given initial value and the default bounds.
\<close>

definition make_params :: "real \<Rightarrow> real \<Rightarrow> real \<Rightarrow> parameters" where
  "make_params A B C =
     [(''A'', \<lparr>pvalue = A, pmin = None, pmax = None\<rparr>),
      (''B'', \<lparr>pvalue = B, pmin = None, pmax = None\<rparr>),
      (''C'', \<lparr>pvalue = C, pmin = None, pmax = None\<rparr>)]"

text \<open>\<^verbatim>\<open>params[name].min = v\<close>\<close>

definition set_min :: "string \<Rightarrow> real \<Rightarrow> parameters \<Rightarrow> parameters" where
  "set_min name v params = AList.map_entry name (\<lambda>p. p\<lparr>pmin := Some v\<rparr>) params"

text \<open>
  What the code reads of lmfit's \<open>ModelResult\<close>: the fitted values, the best-fit curve,
  \<open>fit_report()\<close> and \<open>eval_uncertainty(sigma, t)\<close>.
\<close>

record model_result =
  best_values :: "(string \<times> real) list"
  best_fit :: "real list"
  fit_report :: string
  eval_uncertainty :: "real \<Rightarrow> real list \<Rightarrow> real list"

text \<open>
  \<^verbatim>\<open>Model(gompertz).fit(y, params, t=t)\<close> is lmfit's, not this repository's: it is a
  parameter of the model, a function from the data, the parameters and the times to a
  result or a raised exception.
\<close>

type_synonym optimizer = "real list \<Rightarrow> parameters \<Rightarrow> real list \<Rightarrow> error + model_result"

definition fit_gompertz ::
  "optimizer \<Rightarrow> real list \<Rightarrow> real list \<Rightarrow> real \<Rightarrow> real \<Rightarrow> real \<Rightarrow> real list \<Rightarrow> error + model_result"
where
  "fit_gompertz fit t y A B C xmin =
     (let params = make_params A B C in
      case getitem xmin 0 of Inl e \<Rightarrow> Inl e | Inr m0 \<Rightarrow>
      (let params = set_min ''A'' m0 params in
       case getitem xmin 1 of Inl e \<Rightarrow> Inl e | Inr m1 \<Rightarrow>
       (let params = set_min ''B'' m1 params in
        case getitem xmin 2 of Inl e \<Rightarrow> Inl e | Inr m2 \<Rightarrow>
        (let params = set_min ''C'' m2 params in
         fit y params t))))"

text \<open>
  What "the optimizer honours the bounds" means: every fitted value lies within the bounds
  of the parameter it was handed.
\<close>

definition within_bounds :: "parameter \<Rightarrow> real \<Rightarrow> bool" where
  "within_bounds p v =
     ((case pmin p of None \<Rightarrow> True | Some l \<Rightarrow> l \<le> v) \<and>
      (case pmax p of None \<Rightarrow> True | Some u \<Rightarrow> v \<le> u))"

definition respects_bounds :: "optimizer \<Rightarrow> bool" where
  "respects_bounds fit =
     (\<forall>y params t r. fit y params t = Inr r \<longrightarrow>
        (\<forall>(name, p) \<in> set params.
           \<exists>v. map_of (best_values r) name = Some v \<and> within_bounds p v))"

text \<open>
  The time series handed to the fitter: a frame of numeric columns, by name.
  \<open>biomass_df[name]\<close> raises on a missing column.
\<close>

type_synonym dataframe = "(string \<times> real list) list"

definition column :: "dataframe \<Rightarrow> string \<Rightarrow> error + real list" where
  "column df name =
     (case map_of df name of None \<Rightarrow> Inl (ColumnNotFoundError name) | Some v \<Rightarrow> Inr v)"

text \<open>
  The body of the loop over the wavelengths:
  \<^verbatim>\<open>y = biomass_df[wv].to_numpy()
  fit_results[wv] = fit_gompertz(t, y, A=x0[0], B=x0[1], C=x0[2], xmin=xmin)\<close>
\<close>

definition fit_channel ::
  "optimizer \<Rightarrow> dataframe \<Rightarrow> real list \<Rightarrow> real list \<Rightarrow> real list \<Rightarrow> string \<Rightarrow> error + model_result"
where
  "fit_channel fit biomass_df t x0 xmin wv =
     (case column biomass_df wv of Inl e \<Rightarrow> Inl e | Inr y \<Rightarrow>
      (case getitem x0 0 of Inl e \<Rightarrow> Inl e | Inr A \<Rightarrow>
       (case getitem x0 1 of Inl e \<Rightarrow> Inl e | Inr B \<Rightarrow>
        (case getitem x0 2 of Inl e \<Rightarrow> Inl e | Inr C \<Rightarrow>
         fit_gompertz fit t y A B C xmin))))"

text \<open>
  The loop.  There is no \<open>try\<close> around its body: an exception raised for one wavelength
  leaves the function.  \<open>fit_results\<close> is a dict: a repeated key keeps its place.
\<close>

fun fit_loop ::
  "optimizer \<Rightarrow> dataframe \<Rightarrow> real list \<Rightarrow> real list \<Rightarrow> real list \<Rightarrow> string list \<Rightarrow>
   (string \<times> model_result) list \<Rightarrow> error + (string \<times> model_result) list"
where
  "fit_loop fit biomass_df t x0 xmin [] fit_results = Inr fit_results"
| "fit_loop fit biomass_df t x0 xmin (wv # wavelengths) fit_results =
     (case fit_channel fit biomass_df t x0 xmin wv of
        Inl e \<Rightarrow> Inl e
      | Inr r \<Rightarrow> fit_loop fit biomass_df t x0 xmin wavelengths (AList.update wv r fit_results))"

text \<open>
  An optimizer for the examples below.  It does not iterate: it returns the initial values
  when they lie within their bounds, and raises otherwise.
\<close>

definition initial_value_fit :: optimizer where
  "initial_value_fit y params t =
     (if distinct (map fst params) \<and> (\<forall>(name, p) \<in> set params. within_bounds p (pvalue p))
      then Inr \<lparr>best_values = map (\<lambda>(name, p). (name, pvalue p)) params,
                best_fit = y, fit_report = ''ok'', eval_uncertainty = (\<lambda>sigma t. map (\<lambda>_. 0) t)\<rparr>
      else Inl (FitError ''infeasible''))"

text \<open>
  The files the function writes: a text report, or a workbook of named sheets.  The file
  system is a map from paths to files.
\<close>

datatype file_content = TextFile string | Workbook "(string \<times> dataframe) list"

type_synonym filesystem = "string \<rightharpoonup> file_content"

text \<open>
  Whether a write succeeds is not this repository's to decide: the operating system opens
  a file for writing or raises (a missing directory, a path through a file, a missing
  permission), and polars and xlsxwriter build the frame of a sheet and add it under its
  name to the sheets that the workbook has, or raise (a name that is no sheet name, a
  frame that cannot be built).  Both are parameters: \<open>None\<close> is success, \<open>Some e\<close> the
  exception raised.
\<close>

record host =
  open_w :: "string \<Rightarrow> error option"
  add_sheet :: "string list \<Rightarrow> string \<Rightarrow> dataframe \<Rightarrow> error option"

text \<open>
  The loop over \<open>fit_results.items()\<close>: the report of each fit is written to
  \<open>out_dir/lmfit_<key>_report\<close>, and a sheet named after the key, with the times,
  the best fit and its uncertainty at sigma = 0.9545, is added to the workbook.  An
  exception leaves the loop, and the files written before it stay.
\<close>

fun export_loop ::
  "host \<Rightarrow> string \<Rightarrow> real list \<Rightarrow> (string \<times> model_result) list \<Rightarrow>
   filesystem \<times> (string \<times> dataframe) list \<Rightarrow>
   error option \<times> filesystem \<times> (string \<times> dataframe) list"
where
  "export_loop os out_dir t [] (fs, workbook) = (None, fs, workbook)"
| "export_loop os out_dir t ((key, fit) # items) (fs, workbook) =
     (let file_path = out_dir @ ''/lmfit_'' @ key @ ''_report'' in
      case open_w os file_path of
        Some e \<Rightarrow> (Some e, fs, workbook)
      | None \<Rightarrow>
         (let fs = fs(file_path \<mapsto> TextFile (fit_report fit));
              bf_df = [(''time'', t),
                       (''best_fit'', best_fit fit),
                       (''uncertainty'', eval_uncertainty fit (9545 / 10000) t)]
          in case add_sheet os (map fst workbook) key bf_df of
               Some e \<Rightarrow> (Some e, fs, workbook)
             | None \<Rightarrow> export_loop os out_dir t items (fs, workbook @ [(key, bf_df)])))"

text \<open>
  The workbook reaches the disk when it is closed, after the loop; an exception in the
  loop leaves the function before \<^verbatim>\<open>workbook.close()\<close>.
\<close>

definition export ::
  "host \<Rightarrow> string \<Rightarrow> real list \<Rightarrow> (string \<times> model_result) list \<Rightarrow> filesystem \<Rightarrow>
   error option \<times> filesystem"
where
  "export os out_dir t fit_results fs =
     (let fit_file = out_dir @ ''/best_fit.xlsx'' in
      case export_loop os out_dir t fit_results (fs, []) of
        (Some e, fs, workbook) \<Rightarrow> (Some e, fs)
      | (None, fs, workbook) \<Rightarrow>
         (case open_w os fit_file of
            Some e \<Rightarrow> (Some e, fs)
          | None \<Rightarrow> (None, fs(fit_file \<mapsto> Workbook workbook))))"

text \<open>
  \<open>get_growth_rates\<close>, in a file system that it returns updated together with its result
  or its exception.  \<^verbatim>\<open>if out_dir:\<close> is false for \<open>None\<close> and for the empty string.
\<close>

definition get_growth_rates ::
  "host \<Rightarrow> optimizer \<Rightarrow> filesystem \<Rightarrow> dataframe \<Rightarrow> string list option \<Rightarrow> real list option \<Rightarrow>
   real list option \<Rightarrow> string option \<Rightarrow> (error + (string \<times> model_result) list) \<times> filesystem"
where
  "get_growth_rates os fit fs biomass_df wavelengths x0 xmin out_dir =
     (let wavelengths = default_to [''800''] wavelengths;
          x0 = default_to [1 / 10, 1 / 10, 20] x0;
          xmin = default_to [0, 0, 0] xmin
      in case column biomass_df ''time'' of
           Inl e \<Rightarrow> (Inl e, fs)
         | Inr t \<Rightarrow>
            (case fit_loop fit biomass_df t x0 xmin wavelengths [] of
               Inl e \<Rightarrow> (Inl e, fs)
             | Inr fit_results \<Rightarrow>
                 (case out_dir of
                    None \<Rightarrow> (Inr fit_results, fs)
                  | Some d \<Rightarrow>
                      if d = [] then (Inr fit_results, fs)
                      else (case export os d t fit_results fs of
                              (Some e, fs) \<Rightarrow> (Inl e, fs)
                            | (None, fs) \<Rightarrow> (Inr fit_results, fs)))))"

text \<open>
  Two hosts for the examples below: one on which every write succeeds, and one on which
  the directory \<open>out/lmfit_a\<close> does not exist.
\<close>

definition writable_host :: host where
  "writable_host = \<lparr>open_w = (\<lambda>path. None), add_sheet = (\<lambda>names name df. None)\<rparr>"

definition plain_host :: host where
  "plain_host =
     \<lparr>open_w = (\<lambda>path. if path = ''out/lmfit_a/b_report'' then Some OSError else None),
      add_sheet = (\<lambda>names name df. None)\<rparr>"

section \<open>biomass.py: reading workbooks\<close>

text \<open>
  A polars frame: the names of its columns and its rows.  A frame of a schema that the
  code fixes has rows of a record type; a frame that is addressed by position has rows of
  cells.
\<close>

record 'r frame =
  col_names :: "string list"
  rows :: "'r list"

text \<open>
  \<^verbatim>\<open>pl.concat(frames)\<close> stacks the frames.  It raises on an empty sequence, and on frames
  whose columns differ.  A column is taken to hold cells of one type in every frame, so
  its other exception, on columns of one name and two types, has no case.
\<close>

definition pl_concat :: "'r frame list \<Rightarrow> error + 'r frame" where
  "pl_concat frames =
     (case frames of
        [] \<Rightarrow> Inl ValueError
      | f # fs \<Rightarrow>
          if \<forall>g \<in> set fs. col_names g = col_names f
          then Inr \<lparr>col_names = col_names f, rows = concat (map rows frames)\<rparr>
          else Inl ShapeError)"

text \<open>
  \<open>load_excel\<close>.  \<^verbatim>\<open>pl.read_excel(file, sheet_id=0, ...)\<close> is the spreadsheet reader's: it is
  a parameter, giving the frame of each sheet of the file, in the order of the workbook.
\<close>

definition load_excel ::
  "(string \<Rightarrow> string list option \<Rightarrow> 'r frame list) \<Rightarrow> string \<Rightarrow> string list option \<Rightarrow>
   error + 'r frame"
where
  "load_excel read_excel file columns =
     (case columns of
        None \<Rightarrow> pl_concat (read_excel file None)
      | Some c \<Rightarrow> pl_concat (read_excel file (Some c)))"

section \<open>biomass.py: the plate-reader series\<close>

text \<open>
  A row of the absorbance table of a sheet: the column \<open>Wavel.\<close>, renamed \<open>well\<close>, the
  absorbance columns, and the columns that the join with the key adds (none before it).
  A row of the key table: its \<open>well\<close> and its other columns.  Cells are present (not
  null).
\<close>

record tecan_row =
  well :: string
  absorbance :: "real list"
  identity :: "string list"

record key_row =
  key_well :: string
  key_columns :: "string list"

text \<open>
  With the measurement's timestamp in the column \<open>date\<close>, added last: a polars
  \<open>Datetime\<close>, in microseconds.  With the column \<open>time\<close> after it: first a \<open>Duration\<close>
  in microseconds, then the days as a float.
\<close>

record dated_row = tecan_row +
  date :: int

record 'a timed_row = dated_row +
  time :: 'a

definition with_date :: "tecan_row \<Rightarrow> int \<Rightarrow> dated_row" where
  "with_date r d =
     \<lparr>well = well r, absorbance = absorbance r, identity = identity r, date = d\<rparr>"

definition with_time :: "dated_row \<Rightarrow> 'a \<Rightarrow> 'a timed_row" where
  "with_time r v =
     \<lparr>well = well r, absorbance = absorbance r, identity = identity r, date = date r,
      time = v\<rparr>"

text \<open>
  The options of a read are a dict; \<^verbatim>\<open>if keys_options:\<close> is false for \<open>None\<close> and for the
  empty dict.
\<close>

datatype option_value = IntOption int | StrOption string

type_synonym read_options = "(string \<times> option_value) list"

text \<open>
  The three reads of one file return dicts over the same keys, the sheets of the workbook,
  in the same order.  A sheet is what the three reads find in it: the absorbance table
  (read from row 31 with \<open>n_wells\<close> rows and the columns \<open>col_letters\<close>), its rows and the
  names of its columns after \<open>Wavel.\<close>; the key table (read with \<open>keys_options\<close>), its rows
  and the names of its columns other than \<open>well\<close>; and the text of the cell holding the
  date of the measurement (row 27, column B).  The absorbance table has the column
  \<open>Wavel.\<close> and the key table the column \<open>well\<close>, and no table has a column \<open>date\<close> or
  \<open>time\<close> of its own, so that \<open>date\<close> and \<open>time\<close> are added last.
\<close>

record sheet =
  readings :: "nat \<Rightarrow> string \<Rightarrow> tecan_row list"
  reading_names :: "nat \<Rightarrow> string \<Rightarrow> string list"
  keys :: "read_options \<Rightarrow> key_row list"
  key_names :: "read_options \<Rightarrow> string list"
  date_text :: string

text \<open>
  \<^verbatim>\<open>df_dict[sheet].join(v, on="well")\<close>: polars joins with \<open>how="inner"\<close> unless told
  otherwise.  Each row of the left frame is paired with each row of the right frame that
  has its \<open>well\<close>, and takes the other columns of that row; a column of the right frame
  whose name the left frame has is renamed with the suffix \<open>_right\<close>.
\<close>

definition join_on_well :: "tecan_row list \<Rightarrow> key_row list \<Rightarrow> tecan_row list" where
  "join_on_well df v =
     concat (map (\<lambda>r. map (\<lambda>k. r\<lparr>identity := identity r @ key_columns k\<rparr>)
                          (filter (\<lambda>k. key_well k = well r) v)) df)"

definition join_names :: "string list \<Rightarrow> string list \<Rightarrow> string list" where
  "join_names left right = left @ map (\<lambda>n. if n \<in> set left then n @ ''_right'' else n) right"

text \<open>
  What the body of the loop over the files does to one sheet.
  \<^verbatim>\<open>str.to_datetime("%m/%d/%Y %I:%M:%S %p")\<close> is a parameter \<open>strptime\<close>: the seconds
  since the epoch that the text denotes (the pattern has no fraction of a second), or
  \<open>None\<close> when the text does not match the pattern, and polars raises.
\<close>

definition load_sheet ::
  "(string \<Rightarrow> int option) \<Rightarrow> nat \<Rightarrow> string \<Rightarrow> read_options option \<Rightarrow> sheet \<Rightarrow>
   error + dated_row frame"
where
  "load_sheet strptime n_wells col_letters keys_options s =
     (let df = \<lparr>col_names = ''well'' # reading_names s n_wells col_letters,
                rows = readings s n_wells col_letters\<rparr>;
          df = (case keys_options of
                  None \<Rightarrow> df
                | Some opts \<Rightarrow>
                    if opts = [] then df
                    else \<lparr>col_names = join_names (col_names df) (key_names s opts),
                          rows = join_on_well (rows df) (keys s opts)\<rparr>)
      in case strptime (date_text s) of
           None \<Rightarrow> Inl InvalidOperationError
         | Some seconds \<Rightarrow>
             Inr \<lparr>col_names = col_names df @ [''date''],
                  rows = map (\<lambda>r. with_date r (1000000 * seconds)) (rows df)\<rparr>)"

text \<open>The sheets of a file, in turn; the first exception leaves the function.\<close>

fun load_sheets ::
  "(string \<Rightarrow> int option) \<Rightarrow> nat \<Rightarrow> string \<Rightarrow> read_options option \<Rightarrow> sheet list \<Rightarrow>
   error + dated_row frame list"
where
  "load_sheets strptime n_wells col_letters keys_options [] = Inr []"
| "load_sheets strptime n_wells col_letters keys_options (s # sheets) =
     (case load_sheet strptime n_wells col_letters keys_options s of
        Inl e \<Rightarrow> Inl e
      | Inr df \<Rightarrow>
         (case load_sheets strptime n_wells col_letters keys_options sheets of
            Inl e \<Rightarrow> Inl e
          | Inr dfs \<Rightarrow> Inr (df # dfs)))"

text \<open>
  The loop over the files.  \<open>files_dict\<close> is a dict over the paths: a path given twice
  is pooled once.  The frames of the sheets of a file are stacked by \<open>pl.concat\<close>.
\<close>

fun load_files ::
  "(string \<Rightarrow> sheet list) \<Rightarrow> (string \<Rightarrow> int option) \<Rightarrow> nat \<Rightarrow> string \<Rightarrow> read_options option \<Rightarrow>
   string list \<Rightarrow> (string \<times> dated_row frame) list \<Rightarrow> error + (string \<times> dated_row frame) list"
where
  "load_files read_excel strptime n_wells col_letters keys_options [] files_dict = Inr files_dict"
| "load_files read_excel strptime n_wells col_letters keys_options (f # files) files_dict =
     (case load_sheets strptime n_wells col_letters keys_options (read_excel f) of
        Inl e \<Rightarrow> Inl e
      | Inr df_dict \<Rightarrow>
         (case pl_concat df_dict of
            Inl e \<Rightarrow> Inl e
          | Inr df \<Rightarrow>
              load_files read_excel strptime n_wells col_letters keys_options files
                (AList.update f df files_dict)))"

text \<open>
  \<^verbatim>\<open>dt.total_seconds()\<close>: the whole seconds of a duration in microseconds, rounded
  towards zero.
\<close>

definition total_seconds :: "int \<Rightarrow> int" where
  "total_seconds us = (if us < 0 then - ((- us) div 1000000) else us div 1000000)"

text \<open>
  The last three lines of \<open>load_tecan\<close>:
  \<^verbatim>\<open>od_df = pl.concat(files_dict.values()).sort("date")
  od_df = od_df.with_columns(time = pl.col("date") - od_df[0, -1])
  return od_df.with_columns(time = pl.col("time").dt.total_seconds() / (3600 * 24))\<close>
  \<open>od_df[0, -1]\<close> is the last column of the first row, which is \<open>date\<close>.  On a frame
  without rows it is an empty series, the difference is a column without rows, and the
  function returns a frame without rows.  The sort is written as a stable sort; polars
  leaves the order of rows of equal date open.  The result is given by its rows: its
  columns are those of the pooled frame and \<open>time\<close>.
\<close>

definition elapsed_days :: "dated_row frame list \<Rightarrow> error + real timed_row list" where
  "elapsed_days frames =
     (case pl_concat frames of
        Inl e \<Rightarrow> Inl e
      | Inr pooled \<Rightarrow>
         (let od_df = sort_key date (rows pooled) in
          case od_df of
            [] \<Rightarrow> Inr []
          | first # _ \<Rightarrow>
             (let od_df = map (\<lambda>r. with_time r (date r - date first)) od_df
              in Inr (map (\<lambda>r. with_time (dated_row.truncate r)
                                   (real_of_int (total_seconds (time r)) / (3600 * 24)))
                          od_df))))"

definition load_tecan ::
  "(string \<Rightarrow> sheet list) \<Rightarrow> (string \<Rightarrow> int option) \<Rightarrow> string list \<Rightarrow> nat option \<Rightarrow>
   string option \<Rightarrow> read_options option \<Rightarrow> error + real timed_row list"
where
  "load_tecan read_excel strptime files n_wells col_letters keys_options =
     (let n_wells = default_to 4 n_wells;
          col_letters = default_to ''A:AE'' col_letters
      in case load_files read_excel strptime n_wells col_letters keys_options files [] of
           Inl e \<Rightarrow> Inl e
         | Inr files_dict \<Rightarrow> elapsed_days (map snd files_dict))"

text \<open>
  The batches that \<open>load_tecan\<close> pools, said without the loops: the rows of the frames of
  the sheets of each file, with the date of their sheet; each file once, at the place where
  it is first given.  \<open>dict_keys ks xs\<close> are the keys of a dict that had the keys \<open>ks\<close>,
  after assignments at the keys \<open>xs\<close> in turn.
\<close>

fun dict_keys :: "'k list \<Rightarrow> 'k list \<Rightarrow> 'k list" where
  "dict_keys ks [] = ks"
| "dict_keys ks (x # xs) = dict_keys (if x \<in> set ks then ks else ks @ [x]) xs"

definition sheet_rows ::
  "(string \<Rightarrow> int option) \<Rightarrow> nat \<Rightarrow> string \<Rightarrow> read_options option \<Rightarrow> sheet \<Rightarrow> dated_row list"
where
  "sheet_rows strptime n_wells col_letters keys_options s =
     (case load_sheet strptime n_wells col_letters keys_options s of
        Inl e \<Rightarrow> []
      | Inr df \<Rightarrow> rows df)"

definition pooled_rows ::
  "(string \<Rightarrow> sheet list) \<Rightarrow> (string \<Rightarrow> int option) \<Rightarrow> string list \<Rightarrow> nat option \<Rightarrow>
   string option \<Rightarrow> read_options option \<Rightarrow> dated_row list"
where
  "pooled_rows read_excel strptime files n_wells col_letters keys_options =
     concat (map (\<lambda>f. concat (map (sheet_rows strptime (default_to 4 n_wells)
                                       (default_to ''A:AE'' col_letters) keys_options)
                                  (read_excel f)))
                 (dict_keys [] files))"

text \<open>
  A workbook for the examples below: one file of two sheets, each with two wells, of which
  only \<open>A1\<close> is in the key; the second sheet was measured a day before the first.
  \<open>example_strptime\<close> knows the two dates.
\<close>

definition example_strptime :: "string \<Rightarrow> int option" where
  "example_strptime text =
     (if text = ''01/03/2024 10:00:00 AM'' then Some 1704276000
      else if text = ''01/02/2024 10:00:00 AM'' then Some 1704189600
      else None)"

definition example_sheet :: "real \<Rightarrow> string \<Rightarrow> sheet" where
  "example_sheet od text =
     \<lparr>readings = (\<lambda>n_wells col_letters.
          take n_wells [\<lparr>well = ''A1'', absorbance = [od], identity = []\<rparr>,
                        \<lparr>well = ''A2'', absorbance = [2 * od], identity = []\<rparr>]),
      reading_names = (\<lambda>n_wells col_letters. [''600'']),
      keys = (\<lambda>opts. [\<lparr>key_well = ''A1'', key_columns = [''blank'']\<rparr>]),
      key_names = (\<lambda>opts. [''sample'']),
      date_text = text\<rparr>"

definition example_excel :: "string \<Rightarrow> sheet list" where
  "example_excel f =
     (if f = ''plate.xlsx''
      then [example_sheet (1 / 2) ''01/03/2024 10:00:00 AM'',
            example_sheet (1 / 4) ''01/02/2024 10:00:00 AM'']
      else [])"

section \<open>biomass.py: the dry-weight summary\<close>

text \<open>
  A row of the dry-weight table, with the columns \<open>type\<close>, \<open>Biomass (g/L)\<close> and \<open>date\<close>
  (a \<open>Datetime\<close>, in microseconds).  Cells are present (not null).
\<close>

record dw_row =
  dw_type :: string
  dw_biomass :: real
  dw_date :: int

text \<open>
  A row of the aggregated frame.  Its columns are, in this order, \<open>date\<close>, the mean under
  the name \<open>Biomass (g/L)\<close>, and \<open>std\<close>; then \<open>time\<close>, a \<open>Duration\<close> in microseconds.
  An aggregate is a float of polars: a number, the float \<open>NaN\<close>, or \<open>null\<close>, the
  missing value, which is no float.
\<close>

datatype float_value = Null | NaN | Number real

record agg_row =
  agg_date :: int
  agg_biomass :: float_value
  agg_std :: float_value

record summary_row = agg_row +
  agg_time :: int

text \<open>
  \<^verbatim>\<open>pl.mean\<close> and \<^verbatim>\<open>pl.std\<close>, with doubles idealised as reals.  \<open>pl.std\<close> is the sample
  standard deviation (one degree of freedom less than the number of values); on fewer
  than two values polars does not divide 0 by 0 but gives \<open>null\<close>, as \<open>pl.mean\<close> does on no
  value.
\<close>

definition mean :: "real list \<Rightarrow> float_value" where
  "mean xs = (if xs = [] then Null else Number (sum_list xs / real (length xs)))"

definition std :: "real list \<Rightarrow> float_value" where
  "std xs =
     (if length xs \<le> 1 then Null
      else Number (sqrt (sum_list (map (\<lambda>x. (x - sum_list xs / real (length xs))\<^sup>2) xs)
                       / real (length xs - 1))))"

text \<open>
  \<^verbatim>\<open>group_by(key)\<close>: the rows of each value of the key, the groups in the order of their
  first row (polars leaves the order of the groups open; the frame is sorted by the key
  afterwards).
\<close>

fun group_rows :: "('r \<Rightarrow> 'k) \<Rightarrow> 'r list \<Rightarrow> ('k \<times> 'r list) list \<Rightarrow> ('k \<times> 'r list) list" where
  "group_rows key [] groups = groups"
| "group_rows key (r # rs) groups =
     group_rows key rs
       (case map_of groups (key r) of
          None \<Rightarrow> groups @ [(key r, [r])]
        | Some g \<Rightarrow> AList.update (key r) (g @ [r]) groups)"

definition group_by :: "('r \<Rightarrow> 'k) \<Rightarrow> 'r list \<Rightarrow> ('k \<times> 'r list) list" where
  "group_by key table = group_rows key table []"

text \<open>
  \<open>get_dw_df\<close>.  \<open>dw_df[0, 0]\<close> is the first column of the first row, the \<open>date\<close> of the
  first group.  On a frame without rows it is an empty series, the difference is a column
  without rows, and the function returns a frame without rows.  The result is given by its
  rows: its columns are \<open>date\<close>, \<open>Biomass (g/L)\<close>, \<open>std\<close> and \<open>time\<close>.
\<close>

definition get_dw_df ::
  "(string \<Rightarrow> string list option \<Rightarrow> dw_row frame list) \<Rightarrow> string \<Rightarrow> error + summary_row list"
where
  "get_dw_df read_excel file =
     (let columns = [''type'', ''Biomass (g/L)'', ''date''] in
      case load_excel read_excel file (Some columns) of
        Inl e \<Rightarrow> Inl e
      | Inr dw_df \<Rightarrow>
         (let dw_df = filter (\<lambda>r. dw_type r = ''VSS'') (rows dw_df);
              dw_df = sort_key agg_date
                        (map (\<lambda>(d, g). \<lparr>agg_date = d,
                                         agg_biomass = mean (map dw_biomass g),
                                         agg_std = std (map dw_biomass g)\<rparr>)
                             (group_by dw_date dw_df))
          in case dw_df of
               [] \<Rightarrow> Inr []
             | first # _ \<Rightarrow>
                 Inr (map (\<lambda>r. \<lparr>agg_date = agg_date r, agg_biomass = agg_biomass r,
                                 agg_std = agg_std r,
                                 agg_time = agg_date r - agg_date first\<rparr>) dw_df)))"

text \<open>
  The summary as the specification words it: the rows of the volatile suspended solids,
  one row for each of their timestamps in ascending order, with the mean and the standard
  deviation of the concentrations at that timestamp, and the time elapsed since the
  earliest of these timestamps, as the difference of the raw timestamps.
\<close>

definition biomass_summary :: "dw_row list \<Rightarrow> summary_row list" where
  "biomass_summary table =
     (let vss = filter (\<lambda>r. dw_type r = ''VSS'') table;
          earliest = Min (dw_date ` set vss)
      in map (\<lambda>d. \<lparr>agg_date = d,
                     agg_biomass = mean (map dw_biomass (filter (\<lambda>r. dw_date r = d) vss)),
                     agg_std = std (map dw_biomass (filter (\<lambda>r. dw_date r = d) vss)),
                     agg_time = d - earliest\<rparr>)
             (sorted_list_of_set (dw_date ` set vss)))"

text \<open>
  Two workbooks for the examples, read with the three columns: in one, two replicates at
  one timestamp and one at another; in the other, no row of the volatile suspended solids.
\<close>

definition example_dw :: "string \<Rightarrow> string list option \<Rightarrow> dw_row frame list" where
  "example_dw file columns =
     (if file = ''dw.xlsx''
      then [\<lparr>col_names = [''type'', ''Biomass (g/L)'', ''date''],
             rows = [\<lparr>dw_type = ''VSS'', dw_biomass = 3, dw_date = 172800000000\<rparr>,
                     \<lparr>dw_type = ''TSS'', dw_biomass = 9, dw_date = 86400000000\<rparr>]\<rparr>,
            \<lparr>col_names = [''type'', ''Biomass (g/L)'', ''date''],
             rows = [\<lparr>dw_type = ''VSS'', dw_biomass = 1, dw_date = 86400000000\<rparr>,
                     \<lparr>dw_type = ''VSS'', dw_biomass = 2, dw_date = 86400000000\<rparr>]\<rparr>]
      else [\<lparr>col_names = [''type'', ''Biomass (g/L)'', ''date''],
             rows = [\<lparr>dw_type = ''TSS'', dw_biomass = 9, dw_date = 86400000000\<rparr>]\<rparr>])"

section \<open>biomass.py: the optical-density table\<close>

text \<open>
  \<open>get_od_df\<close> addresses a cell by its position, so its frame is modelled with its
  layout: the names of the columns, and the rows, each with one cell for each column.
  A cell is a float, a \<open>Datetime\<close> or a \<open>Duration\<close> (both in microseconds); cells are
  present (not null).
\<close>

datatype cell = Float real | Datetime int | Duration int


fun index_of :: "string \<Rightarrow> string list \<Rightarrow> nat option" where
  "index_of name [] = None"
| "index_of name (c # cs) = (if c = name then Some 0 else map_option Suc (index_of name cs))"

text \<open>
  The order of a column: a column holds cells of one type, ordered by their numbers.
  \<open>df.sort(name)\<close> raises on a missing column; it is written as a stable sort.
\<close>

definition cell_key :: "cell \<Rightarrow> real" where
  "cell_key c = (case c of Float x \<Rightarrow> x | Datetime d \<Rightarrow> real_of_int d | Duration d \<Rightarrow> real_of_int d)"

definition sort_frame :: "string \<Rightarrow> cell list frame \<Rightarrow> error + cell list frame" where
  "sort_frame name df =
     (case index_of name (col_names df) of
        None \<Rightarrow> Inl (ColumnNotFoundError name)
      | Some i \<Rightarrow> Inr (df\<lparr>rows := sort_key (\<lambda>r. cell_key (r ! i)) (rows df)\<rparr>))"

text \<open>
  \<open>df[0, j]\<close>: the cell of the first row in column \<open>j\<close>.  A column out of range raises.
  On a frame without rows the result is an empty series, written \<open>None\<close>.
\<close>

definition item0 :: "cell list frame \<Rightarrow> nat \<Rightarrow> error + cell option" where
  "item0 df j =
     (if j < length (col_names df)
      then (case rows df of
              [] \<Rightarrow> Inr None
            | r # _ \<Rightarrow> (case getitem r j of Inl e \<Rightarrow> Inl e | Inr c \<Rightarrow> Inr (Some c)))
      else Inl IndexError)"

text \<open>
  The difference of two cells: of two datetimes a duration, of a datetime and a duration
  a datetime, of two durations a duration, of two floats a float; polars raises on the
  other pairs.
\<close>

fun cell_sub :: "cell \<Rightarrow> cell \<Rightarrow> error + cell" where
  "cell_sub (Datetime a) (Datetime b) = Inr (Duration (a - b))"
| "cell_sub (Datetime a) (Duration b) = Inr (Datetime (a - b))"
| "cell_sub (Duration a) (Duration b) = Inr (Duration (a - b))"
| "cell_sub (Float a) (Float b) = Inr (Float (a - b))"
| "cell_sub _ _ = Inl InvalidOperationError"

text \<open>
  \<^verbatim>\<open>pl.col(name) - v\<close>, row by row; the difference with an empty series, on a frame
  without rows, is a column without rows.
\<close>

fun column_minus :: "nat \<Rightarrow> cell \<Rightarrow> cell list list \<Rightarrow> error + cell list" where
  "column_minus i v [] = Inr []"
| "column_minus i v (r # rs) =
     (case cell_sub (r ! i) v of
        Inl e \<Rightarrow> Inl e
      | Inr c \<Rightarrow> (case column_minus i v rs of Inl e \<Rightarrow> Inl e | Inr cs \<Rightarrow> Inr (c # cs)))"

text \<open>
  \<open>df.with_columns(name = values)\<close>: a column of that name is replaced where it stands;
  otherwise the column is added last.
\<close>

definition with_column :: "string \<Rightarrow> cell list \<Rightarrow> cell list frame \<Rightarrow> cell list frame" where
  "with_column name vs df =
     (case index_of name (col_names df) of
        None \<Rightarrow> \<lparr>col_names = col_names df @ [name],
                  rows = map (\<lambda>(r, v). r @ [v]) (zip (rows df) vs)\<rparr>
      | Some i \<Rightarrow> df\<lparr>rows := map (\<lambda>(r, v). r[i := v]) (zip (rows df) vs)\<rparr>)"

text \<open>
  \<^verbatim>\<open>od_df = load_excel(file, wavelengths)
  od_df = od_df.sort("date")
  return od_df.with_columns(time = pl.col("date") - od_df[0, 3]).sort("time")\<close>
\<close>

definition get_od_df ::
  "(string \<Rightarrow> string list option \<Rightarrow> cell list frame list) \<Rightarrow> string \<Rightarrow> string list option \<Rightarrow>
   error + cell list frame"
where
  "get_od_df read_excel file wavelengths =
     (let wavelengths = default_to [''440'', ''680'', ''800''] wavelengths in
      case load_excel read_excel file (Some wavelengths) of
        Inl e \<Rightarrow> Inl e
      | Inr od_df \<Rightarrow>
         (case sort_frame ''date'' od_df of
            Inl e \<Rightarrow> Inl e
          | Inr od_df \<Rightarrow>
             (case index_of ''date'' (col_names od_df) of
                None \<Rightarrow> Inl (ColumnNotFoundError ''date'')
              | Some i \<Rightarrow>
                 (case item0 od_df 3 of
                    Inl e \<Rightarrow> Inl e
                  | Inr None \<Rightarrow> sort_frame ''time'' (with_column ''time'' [] od_df)
                  | Inr (Some first) \<Rightarrow>
                     (case column_minus i first (rows od_df) of
                        Inl e \<Rightarrow> Inl e
                      | Inr elapsed \<Rightarrow>
                          sort_frame ''time'' (with_column ''time'' elapsed od_df))))))"

text \<open>
  A workbook for the examples, of one sheet in the layout \<open>440, 680, 800, date\<close>, the
  later row first.  Its reader gives the columns that are asked for, as the sheet orders
  them.
\<close>

definition pick :: "bool list \<Rightarrow> 'a list \<Rightarrow> 'a list" where
  "pick keep xs = map fst (filter snd (zip xs keep))"

definition select_columns :: "string list \<Rightarrow> cell list frame \<Rightarrow> cell list frame" where
  "select_columns names df =
     (let keep = map (\<lambda>n. n \<in> set names) (col_names df)
      in \<lparr>col_names = pick keep (col_names df), rows = map (pick keep) (rows df)\<rparr>)"

definition example_od :: "string \<Rightarrow> string list option \<Rightarrow> cell list frame list" where
  "example_od file columns =
     (let sheet = \<lparr>col_names = [''440'', ''680'', ''800'', ''date''],
                   rows = [ [Float 4, Float 5, Float 6, Datetime 172800000000],
                            [Float 1, Float 2, Float 3, Datetime 86400000000] ]\<rparr>
      in case columns of None \<Rightarrow> [sheet] | Some c \<Rightarrow> [select_columns c sheet])"

section \<open>Proofs: the growth model\<close>

lemma euler_e_exp: "euler_e = exp 1"
proof -
  have "exp (1::real) = (\<Sum>n. inverse (fact n) * 1 ^ n)"
    by (simp only: exp_def scaleR_conv_of_real) (simp add: field_simps)
  then show ?thesis by (simp add: euler_e_def)
qed

text \<open>
  Claim C1.  For every time t and parameters A, B, C with A nonzero, the growth model
  function returns exactly A * exp(- exp((B * e / A) * (C - t) + 1)), e being Euler's
  number (the sum of the reciprocal factorials).
\<close>

theorem gompertz_formula:
  "A \<noteq> 0 \<Longrightarrow> gompertz t A B C = Some (growth_value t A B C)"
  by (simp add: gompertz_def growth_value_def euler_e_exp)

theorem gompertz_formula_witness:
  "(2::real) \<noteq> 0 \<and> gompertz 3 2 1 3 = Some (growth_value 3 2 1 3)"
  using gompertz_formula [of 2 3 1 3] by simp

subsection \<open>The value at the lag time\<close>

text \<open>Bounds on the exponential from its Taylor polynomial with Lagrange remainder.\<close>

lemma exp_taylor_lower:
  fixes x :: real
  assumes "0 \<le> x"
  shows "(\<Sum>m<n. x ^ m / fact m) \<le> exp x"
proof -
  obtain t where t: "exp x = (\<Sum>m<n. x ^ m / fact m) + (exp t / fact n) * x ^ n"
    using Maclaurin_exp_le [of x n] by blast
  have "0 \<le> (exp t / fact n) * x ^ n"
    using assms by simp
  with t show ?thesis by linarith
qed

lemma exp_taylor_upper:
  fixes x :: real
  assumes "0 \<le> x"
  shows "exp x * (1 - x ^ n / fact n) \<le> (\<Sum>m<n. x ^ m / fact m)"
proof -
  obtain t where t: "\<bar>t\<bar> \<le> \<bar>x\<bar>"
      "exp x = (\<Sum>m<n. x ^ m / fact m) + (exp t / fact n) * x ^ n"
    using Maclaurin_exp_le [of x n] by blast
  have "t \<le> x" using t(1) assms by linarith
  then have le: "exp t \<le> exp x" by simp
  define R where "R = x ^ n / fact n"
  have R: "0 \<le> R" using assms by (simp add: R_def)
  have e: "exp x = (\<Sum>m<n. x ^ m / fact m) + exp t * R"
    using t(2) by (simp add: R_def)
  have "exp t * R \<le> exp x * R"
    using le R by (rule mult_right_mono)
  then have "exp x - exp x * R \<le> (\<Sum>m<n. x ^ m / fact m)"
    using e by linarith
  moreover have "exp x * (1 - R) = exp x - exp x * R"
    by (simp only: right_diff_distrib mult_1_right)
  ultimately show ?thesis unfolding R_def by simp
qed

lemma e_lower: "(2718 / 1000 :: real) \<le> exp 1"
proof -
  have "(\<Sum>m<8. (1::real) ^ m / fact m) \<le> exp 1"
    by (rule exp_taylor_lower) simp
  moreover have "(2718 / 1000 :: real) \<le> (\<Sum>m<8. (1::real) ^ m / fact m)"
    by (simp add: lessThan_nat_numeral lessThan_Suc fact_numeral)
  ultimately show ?thesis by linarith
qed

lemma e_upper: "exp 1 \<le> (272 / 100 :: real)"
proof -
  have "exp 1 * (1 - (1::real) ^ 7 / fact 7) \<le> (\<Sum>m<7. (1::real) ^ m / fact m)"
    by (rule exp_taylor_upper) simp
  then have "exp (1::real) * (5039 / 5040) \<le> 1957 / 720"
    by (simp add: lessThan_nat_numeral lessThan_Suc fact_numeral)
  then show ?thesis by linarith
qed

lemma exp_e_lower: "(1493 / 100 :: real) \<le> exp (exp 1)"
proof -
  have mono: "exp (2718 / 1000 :: real) \<le> exp (exp 1)"
    using e_lower by simp
  have a: "(\<Sum>m<9. (2718 / 1000 :: real) ^ m / fact m) \<le> exp (2718 / 1000)"
    by (rule exp_taylor_lower) simp
  have b: "(1493 / 100 :: real) \<le> (\<Sum>m<9. (2718 / 1000 :: real) ^ m / fact m)"
    by (simp add: lessThan_nat_numeral lessThan_Suc fact_numeral power_divide)
  from mono a b show ?thesis by linarith
qed

lemma exp_e_upper: "exp (exp 1) \<le> (1538 / 100 :: real)"
proof -
  have mono: "exp (exp 1) \<le> exp (68 / 25 :: real)"
    using e_upper by simp
  have "exp (68 / 25 :: real) * (1 - (68 / 25) ^ 10 / fact 10)
      \<le> (\<Sum>m<10. (68 / 25 :: real) ^ m / fact m)"
    by (rule exp_taylor_upper) simp
  then have a: "exp (68 / 25 :: real) * (1 - (68 / 25) ^ 10 / 3628800)
      \<le> (\<Sum>m<10. (68 / 25 :: real) ^ m / fact m)"
    by (simp add: fact_numeral)
  have b: "(\<Sum>m<10. (68 / 25 :: real) ^ m / fact m)
      \<le> 1538 / 100 * (1 - (68 / 25) ^ 10 / 3628800)"
    by (simp add: lessThan_nat_numeral lessThan_Suc fact_numeral power_divide)
  have c: "(0::real) < 1 - (68 / 25) ^ 10 / 3628800"
    by (simp add: power_divide)
  have "exp (68 / 25 :: real) \<le> 1538 / 100"
    using a b c mult_le_cancel_right_pos order_trans by blast
  with mono show ?thesis by linarith
qed

lemma exp_neg_e_bounds:
  "(65 / 1000 :: real) \<le> exp (- exp 1)" "exp (- exp 1) \<le> (67 / 1000 :: real)"
proof -
  have pos: "(0::real) < exp (exp 1)" by simp
  have inv: "exp (- exp 1) = 1 / exp (exp (1::real))"
    by (simp add: exp_minus inverse_eq_divide)
  have "(65 / 1000 :: real) * exp (exp 1) \<le> 1"
    using exp_e_upper by linarith
  then have "(65 / 1000 :: real) \<le> 1 / exp (exp 1)"
    using pos by (simp add: pos_le_divide_eq)
  then show "(65 / 1000 :: real) \<le> exp (- exp 1)"
    unfolding inv .
  have "1 \<le> (67 / 1000 :: real) * exp (exp 1)"
    using exp_e_lower by linarith
  then have "1 / exp (exp 1) \<le> (67 / 1000 :: real)"
    using pos by (simp add: pos_divide_le_eq)
  then show "exp (- exp 1) \<le> (67 / 1000 :: real)"
    unfolding inv .
qed

lemma gompertz_at_lag: "A \<noteq> 0 \<Longrightarrow> gompertz C A B C = Some (A * exp (- exp 1))"
  by (simp add: gompertz_def)

text \<open>
  Claim C4, as stated, fails: at t = C with A = 1.0, B = 0.5, C = 10.0 the growth model
  returns exp(- e), which is farther than 1e-3 from 0.3679 * A.
\<close>

theorem gompertz_lag_value_counterexample:
  "gompertz 10 1 (1 / 2) 10 = Some (exp (- exp 1)) \<and>
   \<not> \<bar>exp (- exp 1) - 3679 / 10000 * (1::real)\<bar> \<le> 1 / 1000"
proof -
  have "gompertz 10 1 (1 / 2) 10 = Some (1 * exp (- exp 1))"
    by (rule gompertz_at_lag) simp
  moreover have "\<not> \<bar>exp (- exp 1) - 3679 / 10000 * (1::real)\<bar> \<le> 1 / 1000"
    using exp_neg_e_bounds(2) by linarith
  ultimately show ?thesis by simp
qed

text \<open>
  Claim C4, amended.  The growth model evaluated at t = C with the literal parameters
  A = 1.0, B = 0.5, C = 10.0 yields exp(- e) * A, which is 0.0660 * A within the numeric
  tolerance 1e-3.
\<close>

theorem gompertz_lag_value:
  "gompertz 10 1 (1 / 2) 10 = Some (exp (- exp 1) * 1) \<and>
   \<bar>exp (- exp 1) * 1 - 660 / 10000 * (1::real)\<bar> \<le> 1 / 1000"
proof -
  have "gompertz 10 1 (1 / 2) 10 = Some (1 * exp (- exp 1))"
    by (rule gompertz_at_lag) simp
  moreover have "\<bar>exp (- exp 1) * 1 - 660 / 10000 * (1::real)\<bar> \<le> 1 / 1000"
    using exp_neg_e_bounds by linarith
  ultimately show ?thesis by simp
qed

section \<open>Proofs: fitting\<close>

lemma getitem_Inr: "getitem xs i = Inr v \<longleftrightarrow> i < length xs \<and> v = xs ! i"
  by (auto simp: getitem_def)

lemma fit_gompertz_Inr:
  assumes "fit_gompertz fit t y A B C xmin = Inr r"
  shows "3 \<le> length xmin \<and>
     fit y [(''A'', \<lparr>pvalue = A, pmin = Some (xmin ! 0), pmax = None\<rparr>),
            (''B'', \<lparr>pvalue = B, pmin = Some (xmin ! 1), pmax = None\<rparr>),
            (''C'', \<lparr>pvalue = C, pmin = Some (xmin ! 2), pmax = None\<rparr>)] t = Inr r"
  using assms
  by (auto simp: fit_gompertz_def make_params_def set_min_def getitem_def Let_def
      split: sum.splits if_splits)

text \<open>
  Claim C9.  For every fit with lower bounds (Amin, Bmin, Cmin), the optimizer is handed
  the parameters A, B, C with these lower bounds and no upper bound (\<open>pmax = None\<close>);
  hence, with an optimizer that honours the bounds it is given, each fitted parameter is
  greater than or equal to its lower bound.
\<close>

theorem fit_gompertz_lower_bounds:
  assumes "fit_gompertz fit t y A B C xmin = Inr r" and "respects_bounds fit"
  shows "3 \<le> length xmin \<and>
     fit y [(''A'', \<lparr>pvalue = A, pmin = Some (xmin ! 0), pmax = None\<rparr>),
            (''B'', \<lparr>pvalue = B, pmin = Some (xmin ! 1), pmax = None\<rparr>),
            (''C'', \<lparr>pvalue = C, pmin = Some (xmin ! 2), pmax = None\<rparr>)] t = Inr r \<and>
     (\<exists>a b c. map_of (best_values r) ''A'' = Some a \<and> xmin ! 0 \<le> a \<and>
              map_of (best_values r) ''B'' = Some b \<and> xmin ! 1 \<le> b \<and>
              map_of (best_values r) ''C'' = Some c \<and> xmin ! 2 \<le> c)"
proof -
  let ?ps = "[(''A'', \<lparr>pvalue = A, pmin = Some (xmin ! 0), pmax = None\<rparr>),
            (''B'', \<lparr>pvalue = B, pmin = Some (xmin ! 1), pmax = None\<rparr>),
            (''C'', \<lparr>pvalue = C, pmin = Some (xmin ! 2), pmax = None\<rparr>)]"
  from fit_gompertz_Inr [OF assms(1)]
  have len: "3 \<le> length xmin" and run: "fit y ?ps t = Inr r" by simp_all
  from assms(2) run
  have all: "\<forall>(name, p) \<in> set ?ps. \<exists>v. map_of (best_values r) name = Some v \<and> within_bounds p v"
    unfolding respects_bounds_def by blast
  from all have "\<exists>a. map_of (best_values r) ''A'' = Some a \<and> xmin ! 0 \<le> a"
    by (simp add: within_bounds_def)
  moreover from all have "\<exists>b. map_of (best_values r) ''B'' = Some b \<and> xmin ! 1 \<le> b"
    by (simp add: within_bounds_def)
  moreover from all have "\<exists>c. map_of (best_values r) ''C'' = Some c \<and> xmin ! 2 \<le> c"
    by (simp add: within_bounds_def)
  ultimately show ?thesis using len run by blast
qed

lemma initial_value_fit_respects_bounds: "respects_bounds initial_value_fit"
  unfolding respects_bounds_def
proof (intro allI impI)
  fix y params t r
  assume run: "initial_value_fit y params t = Inr r"
  then have d: "distinct (map fst params)"
    and w: "\<forall>(name, p) \<in> set params. within_bounds p (pvalue p)"
    and bv: "best_values r = map (\<lambda>(name, p). (name, pvalue p)) params"
    by (auto simp: initial_value_fit_def split: if_splits)
  show "\<forall>(name, p) \<in> set params. \<exists>v. map_of (best_values r) name = Some v \<and> within_bounds p v"
  proof (clarify)
    fix name p assume m: "(name, p) \<in> set params"
    have "map_of params name = Some p" using d m by simp
    then have "map_of (best_values r) name = Some (pvalue p)"
      unfolding bv by (simp add: map_of_map)
    moreover have "within_bounds p (pvalue p)" using w m by auto
    ultimately show "\<exists>v. map_of (best_values r) name = Some v \<and> within_bounds p v" by blast
  qed
qed

lemma fit_gompertz_default_run: "fit_gompertz initial_value_fit [0, 1] [1 / 10, 2 / 10] (1 / 10) (1 / 10) 20 [0, 0, 0]
   = Inr \<lparr>best_values = [(''A'', 1 / 10), (''B'', 1 / 10), (''C'', 20)],
          best_fit = [1 / 10, 2 / 10], fit_report = ''ok'',
          eval_uncertainty = (\<lambda>sigma t. map (\<lambda>_. 0) t)\<rparr>"
  by (simp add: fit_gompertz_def make_params_def set_min_def getitem_def initial_value_fit_def
        within_bounds_def)


text \<open>
  The hypotheses of C9 hold for the default initial guess and bounds.
\<close>

theorem fit_gompertz_lower_bounds_witness:
  "\<exists>r. fit_gompertz initial_value_fit [0, 1] [1 / 10, 2 / 10] (1 / 10) (1 / 10) 20 [0, 0, 0] = Inr r \<and>
       respects_bounds initial_value_fit \<and>
       3 \<le> length [0, 0, 0 :: real] \<and>
       (\<exists>a b c. map_of (best_values r) ''A'' = Some a \<and> [0, 0, 0] ! 0 \<le> a \<and>
                map_of (best_values r) ''B'' = Some b \<and> [0, 0, 0] ! 1 \<le> b \<and>
                map_of (best_values r) ''C'' = Some c \<and> [0, 0, 0] ! 2 \<le> c)"
  using fit_gompertz_lower_bounds [OF fit_gompertz_default_run initial_value_fit_respects_bounds]
    fit_gompertz_default_run initial_value_fit_respects_bounds
  by blast

subsection \<open>The loop over the channels\<close>

lemma fit_loop_Inr:
  "fit_loop fit df t x0 xmin wls acc = Inr res \<Longrightarrow>
     (\<forall>wv \<in> set wls. \<exists>r. fit_channel fit df t x0 xmin wv = Inr r \<and> map_of res wv = Some r) \<and>
     (\<forall>k. k \<notin> set wls \<longrightarrow> map_of res k = map_of acc k) \<and>
     fst ` set res = fst ` set acc \<union> set wls"
proof (induction wls arbitrary: acc)
  case Nil
  then show ?case by simp
next
  case (Cons wv wls)
  from Cons.prems obtain r where r: "fit_channel fit df t x0 xmin wv = Inr r"
    and rest: "fit_loop fit df t x0 xmin wls (AList.update wv r acc) = Inr res"
    by (auto split: sum.splits)
  note IH = Cons.IH [OF rest]
  have "map_of res wv = Some r"
  proof (cases "wv \<in> set wls")
    case True
    then show ?thesis using IH r by auto
  next
    case False
    then have "map_of res wv = map_of (AList.update wv r acc) wv" using IH by blast
    then show ?thesis by (simp add: update_conv')
  qed
  moreover have "\<forall>k. k \<notin> set (wv # wls) \<longrightarrow> map_of res k = map_of acc k"
    using IH by (auto simp: update_conv')
  moreover have "fst ` set res = fst ` set acc \<union> set (wv # wls)"
    using IH by (auto simp: dom_update)
  ultimately show ?case using IH r by auto
qed

lemma fit_loop_Inl:
  "\<forall>wv \<in> set ok. \<not> isl (fit_channel fit df t x0 xmin wv) \<Longrightarrow>
   fit_channel fit df t x0 xmin bad = Inl e \<Longrightarrow>
   fit_loop fit df t x0 xmin (ok @ bad # rest) acc = Inl e"
proof (induction ok arbitrary: acc)
  case Nil
  then show ?case by simp
next
  case (Cons wv ok)
  then obtain r where "fit_channel fit df t x0 xmin wv = Inr r"
    by (cases "fit_channel fit df t x0 xmin wv") auto
  then show ?case using Cons by simp
qed

lemma fit_loop_distinct:
  "fit_loop fit df t x0 xmin wls acc = Inr res \<Longrightarrow> distinct (map fst acc) \<Longrightarrow>
   distinct (map fst res)"
proof (induction wls arbitrary: acc)
  case Nil
  then show ?case by simp
next
  case (Cons wv wls)
  then show ?case
    by (auto split: sum.splits intro: distinct_update)
qed


text \<open>
  Claim C2, as stated, fails.  Channel 800 alone is fitted; requested together with the
  missing channel 999, the call ends with the exception and returns no result for 800.
\<close>

theorem get_growth_rates_missing_channel_counterexample:
  "\<not> isl (fst (get_growth_rates writable_host initial_value_fit Map.empty
       [(''time'', [0, 1, 2]), (''800'', [1 / 10, 2 / 10, 4 / 10])]
       (Some [''800'']) None None None)) \<and>
   get_growth_rates writable_host initial_value_fit Map.empty
       [(''time'', [0, 1, 2]), (''800'', [1 / 10, 2 / 10, 4 / 10])]
       (Some [''800'', ''999'']) None None None
     = (Inl (ColumnNotFoundError ''999''), Map.empty)"
  by (simp add: get_growth_rates_def default_to_def column_def fit_channel_def getitem_def
      fit_gompertz_def make_params_def set_min_def initial_value_fit_def within_bounds_def)

text \<open>
  Claim C2, amended.  When fitting several channels in one call, a failure on one channel
  (a missing column, or an exception of the optimizer) ends the call with the failure of
  the first failing channel, and nothing is written; the fitter returns a result map only
  when every requested channel was fitted, and the map then holds exactly the requested
  channels, each with its fit.
\<close>

theorem get_growth_rates_all_or_nothing:
  assumes "column df ''time'' = Inr t"
  shows
   "(default_to [''800''] wavelengths = ok @ bad # rest \<and>
     (\<forall>wv \<in> set ok. \<not> isl (fit_channel fit df t (default_to [1 / 10, 1 / 10, 20] x0)
                                   (default_to [0, 0, 0] xmin) wv)) \<and>
     fit_channel fit df t (default_to [1 / 10, 1 / 10, 20] x0) (default_to [0, 0, 0] xmin) bad
       = Inl e
     \<longrightarrow> get_growth_rates os fit fs df wavelengths x0 xmin out_dir = (Inl e, fs)) \<and>
    (fst (get_growth_rates os fit fs df wavelengths x0 xmin out_dir) = Inr results
     \<longrightarrow> fst ` set results = set (default_to [''800''] wavelengths) \<and>
         (\<forall>wv \<in> set (default_to [''800''] wavelengths).
            \<exists>r. fit_channel fit df t (default_to [1 / 10, 1 / 10, 20] x0)
                   (default_to [0, 0, 0] xmin) wv = Inr r \<and>
                map_of results wv = Some r))"
proof (intro conjI impI)
  assume a: "default_to [''800''] wavelengths = ok @ bad # rest \<and>
     (\<forall>wv \<in> set ok. \<not> isl (fit_channel fit df t (default_to [1 / 10, 1 / 10, 20] x0)
                                   (default_to [0, 0, 0] xmin) wv)) \<and>
     fit_channel fit df t (default_to [1 / 10, 1 / 10, 20] x0) (default_to [0, 0, 0] xmin) bad
       = Inl e"
  then have "fit_loop fit df t (default_to [1 / 10, 1 / 10, 20] x0) (default_to [0, 0, 0] xmin)
      (ok @ bad # rest) [] = Inl e"
    by (intro fit_loop_Inl) simp_all
  then show "get_growth_rates os fit fs df wavelengths x0 xmin out_dir = (Inl e, fs)"
    using a assms by (simp add: get_growth_rates_def)
next
  assume "fst (get_growth_rates os fit fs df wavelengths x0 xmin out_dir) = Inr results"
  then have loop: "fit_loop fit df t (default_to [1 / 10, 1 / 10, 20] x0) (default_to [0, 0, 0] xmin)
      (default_to [''800''] wavelengths) [] = Inr results"
    using assms
    by (auto simp: get_growth_rates_def split: sum.splits option.splits if_splits prod.splits)
  from fit_loop_Inr [OF loop]
  show "fst ` set results = set (default_to [''800''] wavelengths)"
    by simp
  from fit_loop_Inr [OF loop]
  show "\<forall>wv \<in> set (default_to [''800''] wavelengths).
            \<exists>r. fit_channel fit df t (default_to [1 / 10, 1 / 10, 20] x0)
                   (default_to [0, 0, 0] xmin) wv = Inr r \<and>
                map_of results wv = Some r"
    by blast
qed


text \<open>
  Both cases of the amended C2 occur: a call that fails on channel 999, and a call that
  returns the fit of the default channel.
\<close>

theorem get_growth_rates_all_or_nothing_witness:
  "column [(''time'', [0, 1, 2]), (''800'', [1 / 10, 2 / 10, 4 / 10])] ''time'' = Inr [0, 1, 2] \<and>
   get_growth_rates writable_host initial_value_fit Map.empty
       [(''time'', [0, 1, 2]), (''800'', [1 / 10, 2 / 10, 4 / 10])]
       (Some [''800'', ''999'']) None None None
     = (Inl (ColumnNotFoundError ''999''), Map.empty) \<and>
   (\<exists>results. fst (get_growth_rates writable_host initial_value_fit Map.empty
       [(''time'', [0, 1, 2]), (''800'', [1 / 10, 2 / 10, 4 / 10])] None None None None)
       = Inr results \<and> fst ` set results = {''800''})"
proof -
  let ?df = "[(''time'', [0, 1, 2]), (''800'', [1 / 10, 2 / 10, 4 / 10 :: real])]"
  have t: "column ?df ''time'' = Inr [0, 1, 2]"
    by (simp add: column_def)
  have ok: "\<not> isl (fit_channel initial_value_fit ?df [0, 1, 2] (default_to [1 / 10, 1 / 10, 20] None)
      (default_to [0, 0, 0] None) ''800'')"
    by (simp add: default_to_def column_def fit_channel_def getitem_def
      fit_gompertz_def make_params_def set_min_def initial_value_fit_def within_bounds_def)
  have bad: "fit_channel initial_value_fit ?df [0, 1, 2] (default_to [1 / 10, 1 / 10, 20] None)
      (default_to [0, 0, 0] None) ''999'' = Inl (ColumnNotFoundError ''999'')"
    by (simp add: column_def fit_channel_def)
  have wl: "default_to [''800''] (Some [''800'', ''999'']) = [''800''] @ ''999'' # []"
    by (simp add: default_to_def)
  have 1: "get_growth_rates writable_host initial_value_fit Map.empty ?df (Some [''800'', ''999'']) None None None
     = (Inl (ColumnNotFoundError ''999''), Map.empty)"
    using get_growth_rates_all_or_nothing [OF t, where wavelengths = "Some [''800'', ''999'']"
        and ok = "[''800'']" and bad = "''999''" and rest = "[]" and fit = initial_value_fit
        and ?x0.0 = None and xmin = None and e = "ColumnNotFoundError ''999''"
        and os = writable_host and fs = Map.empty and out_dir = None]
      ok bad wl by simp
  obtain results where r: "fst (get_growth_rates writable_host initial_value_fit Map.empty ?df None None None None)
       = Inr results"
    by (simp add: get_growth_rates_def default_to_def column_def fit_channel_def getitem_def
      fit_gompertz_def make_params_def set_min_def initial_value_fit_def within_bounds_def)
  have 2: "fst ` set results = {''800''}"
    using get_growth_rates_all_or_nothing [OF t, where wavelengths = None
        and fit = initial_value_fit and ?x0.0 = None and xmin = None
        and os = writable_host and fs = Map.empty and out_dir = None and results = results] r
    by (simp add: default_to_def)
  from t 1 r 2 show ?thesis by blast
qed

subsection \<open>The files written\<close>

lemma export_loop_names:
  "export_loop os d t items (fs, wb) = (None, fs', wb') \<Longrightarrow>
   map fst wb' = map fst wb @ map fst items"
proof (induction items arbitrary: fs wb)
  case Nil
  then show ?case by simp
next
  case (Cons item items)
  obtain k f where item: "item = (k, f)" by (cases item)
  from Cons.prems item obtain bf where
    "export_loop os d t items (fs(d @ ''/lmfit_'' @ k @ ''_report'' \<mapsto> TextFile (fit_report f)),
        wb @ [(k, bf)]) = (None, fs', wb')"
    by (auto simp: Let_def split: option.splits)
  from Cons.IH [OF this] show ?case using item by simp
qed

lemma export_loop_other:
  "export_loop os d t items (fs, wb) = (err, fs', wb') \<Longrightarrow>
   \<forall>(key, fit) \<in> set items. p \<noteq> d @ ''/lmfit_'' @ key @ ''_report'' \<Longrightarrow>
   fs' p = fs p"
proof (induction items arbitrary: fs wb)
  case Nil
  then show ?case by simp
next
  case (Cons item items)
  obtain k f where item: "item = (k, f)" by (cases item)
  have p: "p \<noteq> d @ ''/lmfit_'' @ k @ ''_report''"
    and rest: "\<forall>(key, fit) \<in> set items. p \<noteq> d @ ''/lmfit_'' @ key @ ''_report''"
    using Cons.prems(2) item by auto
  show ?case
  proof (cases "open_w os (d @ ''/lmfit_'' @ k @ ''_report'')")
    case (Some e)
    then show ?thesis using Cons.prems(1) item by (simp add: Let_def)
  next
    case None
    let ?fs = "fs(d @ ''/lmfit_'' @ k @ ''_report'' \<mapsto> TextFile (fit_report f))"
    let ?bf = "[(''time'', t), (''best_fit'', best_fit f),
                (''uncertainty'', eval_uncertainty f (9545 / 10000) t)]"
    show ?thesis
    proof (cases "add_sheet os (map fst wb) k ?bf")
      case (Some e)
      then have "fs' = ?fs" using Cons.prems(1) item None by (simp add: Let_def)
      then show ?thesis using p by simp
    next
      case none: None
      then have "export_loop os d t items (?fs, wb @ [(k, ?bf)]) = (err, fs', wb')"
        using Cons.prems(1) item None by (simp add: Let_def)
      from Cons.IH [OF this rest] show ?thesis using p by simp
    qed
  qed
qed

lemma export_loop_report:
  "export_loop os d t items (fs, wb) = (None, fs', wb') \<Longrightarrow>
   distinct (map fst items) \<Longrightarrow> (key, fit) \<in> set items \<Longrightarrow>
   fs' (d @ ''/lmfit_'' @ key @ ''_report'') = Some (TextFile (fit_report fit))"
proof (induction items arbitrary: fs wb)
  case Nil
  then show ?case by simp
next
  case (Cons item items)
  obtain k f where item: "item = (k, f)" by (cases item)
  let ?fs = "fs(d @ ''/lmfit_'' @ k @ ''_report'' \<mapsto> TextFile (fit_report f))"
  from Cons.prems(1) item obtain bf where
    rest: "export_loop os d t items (?fs, wb @ [(k, bf)]) = (None, fs', wb')"
    by (auto simp: Let_def split: option.splits)
  show ?case
  proof (cases "(key, fit) = (k, f)")
    case True
    have "\<forall>(key', fit') \<in> set items.
        d @ ''/lmfit_'' @ key @ ''_report'' \<noteq> d @ ''/lmfit_'' @ key' @ ''_report''"
      using Cons.prems(2) True item by (auto simp: image_iff)
    from export_loop_other [OF rest this] show ?thesis using True by simp
  next
    case False
    then have "(key, fit) \<in> set items" using Cons.prems(3) item by auto
    moreover have "distinct (map fst items)" using Cons.prems(2) by simp
    ultimately show ?thesis using Cons.IH [OF rest] by blast
  qed
qed

lemma export_fs:
  assumes "export os d t results fs = (None, fs')" and "distinct (map fst results)"
  shows "(\<exists>wb. fs' (d @ ''/best_fit.xlsx'') = Some (Workbook wb) \<and>
              map fst wb = map fst results) \<and>
         (\<forall>(key, res) \<in> set results.
            fs' (d @ ''/lmfit_'' @ key @ ''_report'') = Some (TextFile (fit_report res)))"
proof -
  from assms(1) obtain fs1 wb where loop: "export_loop os d t results (fs, []) = (None, fs1, wb)"
    and fs': "fs' = fs1(d @ ''/best_fit.xlsx'' \<mapsto> Workbook wb)"
    by (auto simp: export_def Let_def split: prod.splits option.splits)
  have wb: "map fst wb = map fst results"
    using export_loop_names [OF loop] by simp
  have "\<forall>(key, res) \<in> set results.
            fs' (d @ ''/lmfit_'' @ key @ ''_report'') = Some (TextFile (fit_report res))"
  proof clarify
    fix key res assume m: "(key, res) \<in> set results"
    have "fs1 (d @ ''/lmfit_'' @ key @ ''_report'') = Some (TextFile (fit_report res))"
      using loop assms(2) m by (rule export_loop_report)
    then show "fs' (d @ ''/lmfit_'' @ key @ ''_report'') = Some (TextFile (fit_report res))"
      by (simp add: fs')
  qed
  with fs' wb show ?thesis by simp
qed

text \<open>
  Claim C5, as stated, fails: called with an output directory, the fitter itself writes
  the report of channel 800 into a file system that was empty.
\<close>

theorem get_growth_rates_writes_counterexample:
  "snd (get_growth_rates writable_host initial_value_fit Map.empty
       [(''time'', [0, 1, 2]), (''800'', [1 / 10, 2 / 10, 4 / 10])]
       None None None (Some ''out'')) ''out/lmfit_800_report'' = Some (TextFile ''ok'') \<and>
   Map.empty ''out/lmfit_800_report'' = (None :: file_content option)"
  by (simp add: get_growth_rates_def default_to_def column_def fit_channel_def getitem_def
      fit_gompertz_def make_params_def set_min_def initial_value_fit_def within_bounds_def
      export_def Let_def writable_host_def)

text \<open>
  Claim C5, amended.  The fitter leaves the file system unchanged when no output directory
  is given (\<open>None\<close> or the empty string); given an output directory, the fitter itself
  writes the workbook \<open>best_fit.xlsx\<close>, with one sheet for each channel, and one report
  file for each channel: they are in the file system when the call returns its results.
\<close>

theorem get_growth_rates_side_effects:
  "(out_dir = None \<or> out_dir = Some []
    \<longrightarrow> snd (get_growth_rates os fit fs df wavelengths x0 xmin out_dir) = fs) \<and>
   (out_dir = Some d \<and> d \<noteq> [] \<and>
      fst (get_growth_rates os fit fs df wavelengths x0 xmin out_dir) = Inr results
    \<longrightarrow> (\<exists>wb. snd (get_growth_rates os fit fs df wavelengths x0 xmin out_dir) (d @ ''/best_fit.xlsx'')
                = Some (Workbook wb) \<and> map fst wb = map fst results) \<and>
        (\<forall>(key, res) \<in> set results.
           snd (get_growth_rates os fit fs df wavelengths x0 xmin out_dir)
             (d @ ''/lmfit_'' @ key @ ''_report'') = Some (TextFile (fit_report res))))"
proof (rule conjI; rule impI)
  assume "out_dir = None \<or> out_dir = Some []"
  then show "snd (get_growth_rates os fit fs df wavelengths x0 xmin out_dir) = fs"
    by (auto simp: get_growth_rates_def split: sum.splits)
next
  assume a: "out_dir = Some d \<and> d \<noteq> [] \<and>
      fst (get_growth_rates os fit fs df wavelengths x0 xmin out_dir) = Inr results"
  then obtain t where t: "column df ''time'' = Inr t"
    and loop: "fit_loop fit df t (default_to [1 / 10, 1 / 10, 20] x0) (default_to [0, 0, 0] xmin)
      (default_to [''800''] wavelengths) [] = Inr results"
    by (auto simp: get_growth_rates_def split: sum.splits prod.splits option.splits)
  from a t loop obtain fs' where ex: "export os d t results fs = (None, fs')"
    and s: "snd (get_growth_rates os fit fs df wavelengths x0 xmin out_dir) = fs'"
    by (auto simp: get_growth_rates_def split: prod.splits option.splits)
  have dist: "distinct (map fst results)"
    using fit_loop_distinct [OF loop] by simp
  from export_fs [OF ex dist]
  show "(\<exists>wb. snd (get_growth_rates os fit fs df wavelengths x0 xmin out_dir) (d @ ''/best_fit.xlsx'')
                = Some (Workbook wb) \<and> map fst wb = map fst results) \<and>
        (\<forall>(key, res) \<in> set results.
           snd (get_growth_rates os fit fs df wavelengths x0 xmin out_dir)
             (d @ ''/lmfit_'' @ key @ ''_report'') = Some (TextFile (fit_report res)))"
    unfolding s .
qed

text \<open>
  Both cases of the amended C5 occur.
\<close>

theorem get_growth_rates_side_effects_witness:
  "snd (get_growth_rates writable_host initial_value_fit Map.empty
       [(''time'', [0, 1, 2]), (''800'', [1 / 10, 2 / 10, 4 / 10])]
       None None None None) = Map.empty \<and>
   (\<exists>results. fst (get_growth_rates writable_host initial_value_fit Map.empty
       [(''time'', [0, 1, 2]), (''800'', [1 / 10, 2 / 10, 4 / 10])]
       None None None (Some ''out'')) = Inr results \<and>
     (\<exists>wb. snd (get_growth_rates writable_host initial_value_fit Map.empty
       [(''time'', [0, 1, 2]), (''800'', [1 / 10, 2 / 10, 4 / 10])]
       None None None (Some ''out'')) (''out'' @ ''/best_fit.xlsx'') = Some (Workbook wb) \<and>
       map fst wb = map fst results))"
proof -
  let ?df = "[(''time'', [0, 1, 2]), (''800'', [1 / 10, 2 / 10, 4 / 10 :: real])]"
  have 1: "snd (get_growth_rates writable_host initial_value_fit Map.empty ?df None None None None)
      = Map.empty"
    using get_growth_rates_side_effects [where out_dir = None and os = writable_host
        and fit = initial_value_fit and fs = Map.empty and df = ?df and wavelengths = None
        and ?x0.0 = None and xmin = None]
    by simp
  obtain results where r: "fst (get_growth_rates writable_host initial_value_fit Map.empty ?df
       None None None (Some ''out'')) = Inr results"
    by (simp add: get_growth_rates_def default_to_def column_def fit_channel_def getitem_def
      fit_gompertz_def make_params_def set_min_def initial_value_fit_def within_bounds_def
      export_def Let_def writable_host_def)
  have 2: "\<exists>wb. snd (get_growth_rates writable_host initial_value_fit Map.empty ?df None None None
       (Some ''out'')) (''out'' @ ''/best_fit.xlsx'') = Some (Workbook wb) \<and>
       map fst wb = map fst results"
    using get_growth_rates_side_effects [where out_dir = "Some ''out''" and os = writable_host
        and fit = initial_value_fit and fs = Map.empty and df = ?df and wavelengths = None
        and ?x0.0 = None and xmin = None and d = "''out''" and results = results] r
    by simp
  from 1 r 2 show ?thesis by blast
qed

text \<open>
  A write that fails ends the call with its exception, and what was written before it
  stays: on a host where \<open>out/lmfit_a\<close> is no directory, the call for the channels 800 and
  \<open>a/b\<close> raises, and the report of channel 800 is on disk.
\<close>

lemma get_growth_rates_failed_write:
  "fst (get_growth_rates plain_host initial_value_fit Map.empty
       [(''time'', [0, 1]), (''800'', [1 / 10, 2 / 10]), (''a/b'', [1 / 10, 2 / 10])]
       (Some [''800'', ''a/b'']) None None (Some ''out'')) = Inl OSError \<and>
   snd (get_growth_rates plain_host initial_value_fit Map.empty
       [(''time'', [0, 1]), (''800'', [1 / 10, 2 / 10]), (''a/b'', [1 / 10, 2 / 10])]
       (Some [''800'', ''a/b'']) None None (Some ''out'')) ''out/lmfit_800_report''
     = Some (TextFile ''ok'')"
  by (simp add: get_growth_rates_def default_to_def column_def fit_channel_def getitem_def
      fit_gompertz_def make_params_def set_min_def initial_value_fit_def within_bounds_def
      export_def Let_def plain_host_def)

section \<open>Proofs: the plate-reader series\<close>

lemma truncate_with_time: "dated_row.truncate (with_time r v) = r"
  by (simp add: dated_row.truncate_def with_time_def)

lemma with_time_sel:
  "time (with_time r v) = v" "date (with_time r v) = date r" "well (with_time r v) = well r"
  "absorbance (with_time r v) = absorbance r" "identity (with_time r v) = identity r"
  by (simp_all add: with_time_def)

lemma truncate_sel:
  "date (dated_row.truncate r) = date r" "well (dated_row.truncate r) = well r"
  "absorbance (dated_row.truncate r) = absorbance r" "identity (dated_row.truncate r) = identity r"
  by (simp_all add: dated_row.truncate_def)

lemma total_seconds_0: "total_seconds 0 = 0"
  by (simp add: total_seconds_def)

lemma total_seconds_mono: "a \<le> b \<Longrightarrow> total_seconds a \<le> total_seconds b"
proof -
  assume le: "a \<le> b"
  consider "b < 0" | "a < 0" "0 \<le> b" | "0 \<le> a" by linarith
  then show ?thesis
  proof cases
    case 1
    then have "(- b) div 1000000 \<le> (- a) div 1000000"
      using le by (intro zdiv_mono1) simp_all
    then show ?thesis using 1 le by (simp add: total_seconds_def)
  next
    case 2
    have "0 \<le> (- a) div 1000000" using 2 by (simp add: div_int_pos_iff)
    moreover have "0 \<le> b div 1000000" using 2 by (simp add: div_int_pos_iff)
    ultimately show ?thesis using 2 by (simp add: total_seconds_def)
  next
    case 3
    then have "a div 1000000 \<le> b div 1000000"
      using le by (intro zdiv_mono1) simp_all
    then show ?thesis using 3 le by (simp add: total_seconds_def)
  qed
qed

lemma total_seconds_exact: "0 \<le> k \<Longrightarrow> total_seconds (1000000 * k) = k"
  by (simp add: total_seconds_def)

lemma pl_concat_Inr:
  "pl_concat frames = Inr pooled \<Longrightarrow>
   frames \<noteq> [] \<and> rows pooled = concat (map rows frames) \<and>
   (\<forall>g \<in> set frames. col_names g = col_names pooled)"
  by (auto simp: pl_concat_def split: list.splits if_splits)

lemma elapsed_days_Inr:
  assumes "elapsed_days frames = Inr out"
  shows "out = map (\<lambda>r. with_time r
                      (real_of_int (total_seconds
                         (date r - date (hd (sort_key date (concat (map rows frames))))))
                         / (3600 * 24)))
                   (sort_key date (concat (map rows frames)))"
proof -
  from assms obtain pooled where p: "pl_concat frames = Inr pooled"
    by (auto simp: elapsed_days_def split: sum.splits)
  then have pooled: "rows pooled = concat (map rows frames)"
    by (simp add: pl_concat_Inr)
  show ?thesis
  proof (cases "sort_key date (rows pooled)")
    case Nil
    then have "out = []" using assms p by (simp add: elapsed_days_def Let_def)
    then show ?thesis using Nil pooled by simp
  next
    case (Cons first rest)
    then have "out = map (\<lambda>r. with_time r
                      (real_of_int (total_seconds (date r - date first)) / (3600 * 24)))
                   (sort_key date (rows pooled))"
      using assms p
      by (simp add: elapsed_days_def Let_def truncate_with_time with_time_sel comp_def)
    then show ?thesis using Cons pooled by simp
  qed
qed

lemma hd_sort_key_Min:
  assumes "xs \<noteq> []"
  shows "f (hd (sort_key f xs)) = Min (f ` set xs)"
proof -
  let ?s = "sort_key f xs"
  have ne: "?s \<noteq> []" using assms by (metis length_0_conv length_sort)
  have srt: "sorted (map f ?s)" by (rule sorted_sort_key)
  have "f (hd ?s) \<in> f ` set xs" using ne by (metis hd_in_set imageI set_sort)
  moreover have "\<forall>y \<in> f ` set xs. f (hd ?s) \<le> y"
  proof
    fix y assume "y \<in> f ` set xs"
    then have "y \<in> set (map f ?s)" by simp
    moreover have "map f ?s = f (hd ?s) # map f (tl ?s)" using ne by (cases ?s) auto
    ultimately show "f (hd ?s) \<le> y" using srt by (metis order_refl set_ConsD sorted_simps(2))
  qed
  ultimately show ?thesis by (intro Min_eqI [symmetric]) auto
qed

lemma elapsed_series:
  fixes pooled :: "dated_row list"
  assumes out: "out = map (\<lambda>r. with_time r
                      (real_of_int (total_seconds (date r - date (hd (sort_key date pooled))))
                         / (3600 * 24)))
                   (sort_key date pooled)"
  shows "map dated_row.truncate out = sort_key date pooled"
    and "sorted (map time out)"
    and "out \<noteq> [] \<Longrightarrow> time (hd out) = 0"
proof -
  let ?s = "sort_key date pooled"
  let ?t = "\<lambda>d. real_of_int (total_seconds (d - date (hd ?s))) / (3600 * 24)"
  show "map dated_row.truncate out = ?s"
    unfolding out by (simp add: comp_def truncate_with_time)
  have srt: "sorted (map date ?s)" by (rule sorted_sort_key)
  have mt: "map time out = map ?t (map date ?s)"
    by (simp add: out comp_def with_time_sel)
  have mono: "mono ?t"
    by (intro monoI divide_right_mono) (simp_all add: total_seconds_mono)
  show "sorted (map time out)"
    unfolding mt using srt by (rule sorted_map_mono) (rule mono_imp_mono_on [OF mono])
  assume "out \<noteq> []"
  then have sne: "?s \<noteq> []" using out by auto
  then have "hd out = with_time (hd ?s) (?t (date (hd ?s)))"
    unfolding out by (simp add: hd_map)
  then show "time (hd out) = 0"
    by (simp add: with_time_sel total_seconds_0)
qed

subsection \<open>From the sheets to the pooled rows\<close>

lemma with_date_sel:
  "date (with_date r d) = d" "well (with_date r d) = well r"
  "absorbance (with_date r d) = absorbance r" "identity (with_date r d) = identity r"
  by (simp_all add: with_date_def)

lemma load_sheet_Inr:
  assumes "load_sheet strptime n c ko s = Inr df"
  shows "\<exists>seconds. strptime (date_text s) = Some seconds \<and>
           rows df = map (\<lambda>r. with_date r (1000000 * seconds))
                  (case ko of None \<Rightarrow> readings s n c
                   | Some opts \<Rightarrow> if opts = [] then readings s n c
                                 else join_on_well (readings s n c) (keys s opts))"
  using assms by (auto simp: load_sheet_def Let_def split: option.splits)

lemma sheet_rows_Inr:
  "load_sheet strptime n c ko s = Inr df \<Longrightarrow> sheet_rows strptime n c ko s = rows df"
  by (simp add: sheet_rows_def)

lemma load_sheets_Inr:
  "load_sheets strptime n c ko sheets = Inr dfs \<Longrightarrow>
   list_all2 (\<lambda>s df. load_sheet strptime n c ko s = Inr df) sheets dfs"
  by (induction sheets arbitrary: dfs) (auto split: sum.splits)

lemma load_sheets_rows:
  "load_sheets strptime n c ko sheets = Inr dfs \<Longrightarrow>
   map rows dfs = map (sheet_rows strptime n c ko) sheets"
  by (induction sheets arbitrary: dfs) (auto split: sum.splits simp: sheet_rows_Inr)

lemma load_sheets_ok:
  "load_sheets strptime n c ko sheets = Inr dfs \<Longrightarrow> s \<in> set sheets \<Longrightarrow>
   \<exists>df. load_sheet strptime n c ko s = Inr df"
  by (induction sheets arbitrary: dfs) (auto split: sum.splits)

lemma set_dict_keys: "set (dict_keys ks xs) = set ks \<union> set xs"
  by (induction xs arbitrary: ks) auto

lemma update_set_cases:
  "(k', v') \<in> set (AList.update k v al) \<Longrightarrow> (k', v') = (k, v) \<or> (k', v') \<in> set al"
  by (induction al) (auto split: if_splits)

lemma update_set_new: "(k, v) \<in> set (AList.update k v al)"
  by (induction al) auto

lemma load_files_Inr:
  "load_files rd strptime n c ko files acc = Inr fd \<Longrightarrow> distinct (map fst acc) \<Longrightarrow>
   distinct (map fst fd) \<and>
   map fst fd = dict_keys (map fst acc) files \<and>
   (\<forall>f \<in> set files. \<exists>dfs. load_sheets strptime n c ko (rd f) = Inr dfs) \<and>
   (\<forall>f df. (f, df) \<in> set fd \<longrightarrow>
      (f, df) \<in> set acc \<or>
      (\<exists>dfs. load_sheets strptime n c ko (rd f) = Inr dfs \<and> pl_concat dfs = Inr df))"
proof (induction files arbitrary: acc)
  case Nil
  then show ?case by simp
next
  case (Cons g files)
  from Cons.prems(1) obtain dfs df where dfs: "load_sheets strptime n c ko (rd g) = Inr dfs"
    and df: "pl_concat dfs = Inr df"
    and rest: "load_files rd strptime n c ko files (AList.update g df acc) = Inr fd"
    by (auto split: sum.splits)
  have d: "distinct (map fst (AList.update g df acc))"
    using Cons.prems(2) by (rule distinct_update)
  note IH = Cons.IH [OF rest d]
  have keys: "map fst (AList.update g df acc) =
      (if g \<in> set (map fst acc) then map fst acc else map fst acc @ [g])"
    by (rule update_keys)
  have 1: "map fst fd = dict_keys (map fst acc) (g # files)"
    using IH keys by simp
  have 2: "\<forall>f \<in> set (g # files). \<exists>dfs. load_sheets strptime n c ko (rd f) = Inr dfs"
    using IH dfs by auto
  have 3: "\<forall>f d'. (f, d') \<in> set fd \<longrightarrow>
      (f, d') \<in> set acc \<or>
      (\<exists>dfs. load_sheets strptime n c ko (rd f) = Inr dfs \<and> pl_concat dfs = Inr d')"
  proof (intro allI impI)
    fix f d' assume "(f, d') \<in> set fd"
    with IH have "(f, d') \<in> set (AList.update g df acc) \<or>
      (\<exists>dfs. load_sheets strptime n c ko (rd f) = Inr dfs \<and> pl_concat dfs = Inr d')"
      by blast
    then show "(f, d') \<in> set acc \<or>
      (\<exists>dfs. load_sheets strptime n c ko (rd f) = Inr dfs \<and> pl_concat dfs = Inr d')"
    proof
      assume "(f, d') \<in> set (AList.update g df acc)"
      then have "(f, d') = (g, df) \<or> (f, d') \<in> set acc" by (rule update_set_cases)
      then show ?thesis using dfs df by auto
    qed simp
  qed
  from IH 1 2 3 show ?case by blast
qed

lemma load_files_rows:
  assumes "load_files rd strptime n c ko files [] = Inr fd"
  shows "map (\<lambda>p. rows (snd p)) fd =
           map (\<lambda>f. concat (map (sheet_rows strptime n c ko) (rd f))) (dict_keys [] files)"
proof -
  from load_files_Inr [OF assms] have keys: "map fst fd = dict_keys [] files"
    and entries: "\<forall>f df. (f, df) \<in> set fd \<longrightarrow>
      (\<exists>dfs. load_sheets strptime n c ko (rd f) = Inr dfs \<and> pl_concat dfs = Inr df)"
    by simp_all
  have "\<forall>p \<in> set fd. rows (snd p) = concat (map (sheet_rows strptime n c ko) (rd (fst p)))"
  proof
    fix p assume "p \<in> set fd"
    then have "(fst p, snd p) \<in> set fd" by simp
    with entries obtain dfs where dfs: "load_sheets strptime n c ko (rd (fst p)) = Inr dfs"
      and df: "pl_concat dfs = Inr (snd p)" by blast
    have "rows (snd p) = concat (map rows dfs)" using df by (simp add: pl_concat_Inr)
    then show "rows (snd p) = concat (map (sheet_rows strptime n c ko) (rd (fst p)))"
      using load_sheets_rows [OF dfs] by simp
  qed
  then have "map (\<lambda>p. rows (snd p)) fd =
      map (\<lambda>p. concat (map (sheet_rows strptime n c ko) (rd (fst p)))) fd"
    by (intro map_cong) auto
  also have "\<dots> = map (\<lambda>f. concat (map (sheet_rows strptime n c ko) (rd f))) (map fst fd)"
    by (simp add: comp_def)
  finally show ?thesis unfolding keys .
qed

lemma load_tecan_Inr:
  assumes "load_tecan rd strptime files n c ko = Inr out"
  shows "out = map (\<lambda>r. with_time r
                      (real_of_int (total_seconds
                         (date r - date (hd (sort_key date (pooled_rows rd strptime files n c ko)))))
                         / (3600 * 24)))
                   (sort_key date (pooled_rows rd strptime files n c ko))"
    and "\<forall>f \<in> set files. \<forall>s \<in> set (rd f). \<exists>df.
           load_sheet strptime (default_to 4 n) (default_to ''A:AE'' c) ko s = Inr df"
proof -
  let ?n = "default_to 4 n" and ?c = "default_to ''A:AE'' c"
  from assms obtain fd where fd: "load_files rd strptime ?n ?c ko files [] = Inr fd"
    and el: "elapsed_days (map snd fd) = Inr out"
    by (auto simp: load_tecan_def Let_def split: sum.splits)
  have "concat (map rows (map snd fd)) = pooled_rows rd strptime files n c ko"
    using load_files_rows [OF fd] by (simp add: pooled_rows_def comp_def)
  with elapsed_days_Inr [OF el]
  show "out = map (\<lambda>r. with_time r
                      (real_of_int (total_seconds
                         (date r - date (hd (sort_key date (pooled_rows rd strptime files n c ko)))))
                         / (3600 * 24)))
                   (sort_key date (pooled_rows rd strptime files n c ko))"
    by simp
  show "\<forall>f \<in> set files. \<forall>s \<in> set (rd f). \<exists>df. load_sheet strptime ?n ?c ko s = Inr df"
  proof (intro ballI)
    fix f s assume f: "f \<in> set files" and s: "s \<in> set (rd f)"
    from load_files_Inr [OF fd] f obtain dfs where
      "load_sheets strptime ?n ?c ko (rd f) = Inr dfs" by auto
    from load_sheets_ok [OF this s] show "\<exists>df. load_sheet strptime ?n ?c ko s = Inr df" .
  qed
qed

lemma set_pooled_rows:
  "set (pooled_rows rd strptime files n c ko) =
     (\<Union>f \<in> set files. \<Union>s \<in> set (rd f).
        set (sheet_rows strptime (default_to 4 n) (default_to ''A:AE'' c) ko s))"
  by (simp add: pooled_rows_def set_dict_keys)

lemma load_tecan_rows:
  assumes "load_tecan rd strptime files n c ko = Inr out"
  shows "(\<forall>r \<in> set out. \<exists>f \<in> set files. \<exists>s \<in> set (rd f). \<exists>df.
            load_sheet strptime (default_to 4 n) (default_to ''A:AE'' c) ko s = Inr df \<and>
            dated_row.truncate r \<in> set (rows df)) \<and>
         (\<forall>f \<in> set files. \<forall>s \<in> set (rd f). \<exists>df.
            load_sheet strptime (default_to 4 n) (default_to ''A:AE'' c) ko s = Inr df \<and>
            set (rows df) \<subseteq> dated_row.truncate ` set out)"
proof -
  let ?n = "default_to 4 n" and ?c = "default_to ''A:AE'' c"
  note ok = load_tecan_Inr(2) [OF assms]
  have "map dated_row.truncate out = sort_key date (pooled_rows rd strptime files n c ko)"
    using load_tecan_Inr(1) [OF assms] by (rule elapsed_series(1))
  then have "set (map dated_row.truncate out) = set (pooled_rows rd strptime files n c ko)"
    by simp
  then have rows: "dated_row.truncate ` set out =
      (\<Union>f \<in> set files. \<Union>s \<in> set (rd f). set (sheet_rows strptime ?n ?c ko s))"
    by (simp add: set_pooled_rows)
  have 1: "\<forall>r \<in> set out. \<exists>f \<in> set files. \<exists>s \<in> set (rd f). \<exists>df.
            load_sheet strptime ?n ?c ko s = Inr df \<and> dated_row.truncate r \<in> set (rows df)"
  proof
    fix r assume "r \<in> set out"
    then have "dated_row.truncate r \<in> dated_row.truncate ` set out" by (rule imageI)
    then obtain f s where f: "f \<in> set files" and s: "s \<in> set (rd f)"
      and r: "dated_row.truncate r \<in> set (sheet_rows strptime ?n ?c ko s)"
      unfolding rows by blast
    from ok f s obtain df where l: "load_sheet strptime ?n ?c ko s = Inr df" by blast
    then have "dated_row.truncate r \<in> set (rows df)" using r by (simp add: sheet_rows_Inr)
    with f s l show "\<exists>f \<in> set files. \<exists>s \<in> set (rd f). \<exists>df.
            load_sheet strptime ?n ?c ko s = Inr df \<and> dated_row.truncate r \<in> set (rows df)"
      by blast
  qed
  have 2: "\<forall>f \<in> set files. \<forall>s \<in> set (rd f). \<exists>df.
            load_sheet strptime ?n ?c ko s = Inr df \<and>
            set (rows df) \<subseteq> dated_row.truncate ` set out"
  proof (intro ballI)
    fix f s assume f: "f \<in> set files" and s: "s \<in> set (rd f)"
    from ok f s obtain df where l: "load_sheet strptime ?n ?c ko s = Inr df" by blast
    then have "set (rows df) = set (sheet_rows strptime ?n ?c ko s)" by (simp add: sheet_rows_Inr)
    also have "\<dots> \<subseteq> dated_row.truncate ` set out" unfolding rows using f s by blast
    finally show "\<exists>df. load_sheet strptime ?n ?c ko s = Inr df \<and>
        set (rows df) \<subseteq> dated_row.truncate ` set out" using l by blast
  qed
  from 1 2 show ?thesis by simp
qed

lemma pooled_whole_seconds:
  assumes "r \<in> set (pooled_rows rd strptime files n c ko)"
  shows "\<exists>seconds. date r = 1000000 * seconds"
proof -
  from assms obtain s where
    r: "r \<in> set (sheet_rows strptime (default_to 4 n) (default_to ''A:AE'' c) ko s)"
    unfolding set_pooled_rows by blast
  then obtain df where l: "load_sheet strptime (default_to 4 n) (default_to ''A:AE'' c) ko s = Inr df"
    and rr: "r \<in> set (rows df)"
    by (cases "load_sheet strptime (default_to 4 n) (default_to ''A:AE'' c) ko s")
       (simp_all add: sheet_rows_def)
  from load_sheet_Inr [OF l] rr show ?thesis by (auto simp: with_date_sel)
qed


text \<open>
  Claim C8.  The series that \<open>load_tecan\<close> returns holds the pooled rows of the batches,
  sorted by timestamp, and for every row of it the elapsed time is the timestamp of the row
  minus the earliest pooled timestamp, in days: the difference is a whole number of
  seconds, and \<open>time\<close> is that number divided by 86400.
\<close>

theorem load_tecan_elapsed_days:
  assumes "load_tecan rd strptime files n c ko = Inr out"
  shows "map dated_row.truncate out = sort_key date (pooled_rows rd strptime files n c ko) \<and>
         (\<forall>r \<in> set out. \<exists>seconds. 0 \<le> seconds \<and>
            date r - Min (date ` set (pooled_rows rd strptime files n c ko)) = 1000000 * seconds \<and>
            time r = real_of_int seconds / 86400)"
proof (rule conjI)
  let ?pooled = "pooled_rows rd strptime files n c ko"
  let ?s = "sort_key date ?pooled"
  define t where "t = (\<lambda>r::dated_row. real_of_int (total_seconds (date r - date (hd ?s))) / (3600 * 24))"
  from load_tecan_Inr(1) [OF assms] have out: "out = map (\<lambda>r. with_time r (t r)) ?s"
    by (simp add: t_def)
  show "map dated_row.truncate out = ?s"
    unfolding out by (simp add: comp_def truncate_with_time)
  show "\<forall>r \<in> set out. \<exists>seconds. 0 \<le> seconds \<and>
            date r - Min (date ` set ?pooled) = 1000000 * seconds \<and>
            time r = real_of_int seconds / 86400"
  proof
    fix r assume r: "r \<in> set out"
    then obtain r' where r': "r' \<in> set ?pooled" and rr: "r = with_time r' (t r')"
      unfolding out by auto
    from r' have ne: "?pooled \<noteq> []" by auto
    have first: "date (hd ?s) = Min (date ` set ?pooled)"
      using ne by (rule hd_sort_key_Min)
    have "Min (date ` set ?pooled) \<in> date ` set ?pooled" using ne by (intro Min_in) simp_all
    then obtain r0 where r0: "r0 \<in> set ?pooled" and m: "Min (date ` set ?pooled) = date r0"
      by auto
    have dr: "date r' = date r" using rr by (simp add: with_time_sel)
    from pooled_whole_seconds [OF r'] obtain k where k: "date r = 1000000 * k"
      unfolding dr by blast
    from pooled_whole_seconds [OF r0] obtain k0 where k0: "date r0 = 1000000 * k0" by blast
    have "Min (date ` set ?pooled) \<le> date r'" using r' by (intro Min_le) simp_all
    then have le: "k0 \<le> k" using m k k0 dr by simp
    have diff: "date r - Min (date ` set ?pooled) = 1000000 * (k - k0)"
      using m k k0 by (simp add: algebra_simps)
    have "time r = t r'" using rr by (simp add: with_time_sel)
    also have "t r' = real_of_int (total_seconds (1000000 * (k - k0))) / (3600 * 24)"
      unfolding t_def first dr diff [symmetric] by simp
    also have "total_seconds (1000000 * (k - k0)) = k - k0"
      using le by (intro total_seconds_exact) simp
    finally have "time r = real_of_int (k - k0) / 86400" by simp
    with le diff show "\<exists>seconds. 0 \<le> seconds \<and>
             date r - Min (date ` set ?pooled) = 1000000 * seconds \<and>
             time r = real_of_int seconds / 86400"
      by (intro exI [of _ "k - k0"]) simp
  qed
qed

subsection \<open>The join with the key\<close>

lemma set_join_on_well:
  "set (join_on_well df v) =
     {r0\<lparr>identity := identity r0 @ key_columns k\<rparr> | r0 k.
        r0 \<in> set df \<and> k \<in> set v \<and> key_well k = well r0}"
  by (auto simp: join_on_well_def)

lemma load_sheet_join_sound:
  assumes "load_sheet strptime n c (Some opts) s = Inr df" and "opts \<noteq> []" and "x \<in> set (rows df)"
  shows "\<exists>r0 \<in> set (readings s n c). \<exists>k \<in> set (keys s opts).
           key_well k = well r0 \<and> well x = well r0 \<and> absorbance x = absorbance r0 \<and>
           identity x = identity r0 @ key_columns k"
proof -
  from load_sheet_Inr [OF assms(1)] assms(2) obtain seconds where
    df: "rows df = map (\<lambda>r. with_date r (1000000 * seconds)) (join_on_well (readings s n c) (keys s opts))"
    by auto
  from assms(3) obtain j where j: "j \<in> set (join_on_well (readings s n c) (keys s opts))"
    and x: "x = with_date j (1000000 * seconds)"
    unfolding df by auto
  from j obtain r0 k where r0: "r0 \<in> set (readings s n c)" and k: "k \<in> set (keys s opts)"
    and m: "key_well k = well r0" and jj: "j = r0\<lparr>identity := identity r0 @ key_columns k\<rparr>"
    unfolding set_join_on_well by blast
  have "well x = well r0 \<and> absorbance x = absorbance r0 \<and> identity x = identity r0 @ key_columns k"
    unfolding x jj by (simp add: with_date_sel)
  with r0 k m show ?thesis by blast
qed

lemma load_sheet_join_complete:
  assumes "load_sheet strptime n c (Some opts) s = Inr df" and "opts \<noteq> []"
    and "r0 \<in> set (readings s n c)" and "k \<in> set (keys s opts)" and "key_well k = well r0"
  shows "\<exists>x \<in> set (rows df). well x = well r0 \<and> absorbance x = absorbance r0 \<and>
           identity x = identity r0 @ key_columns k"
proof -
  from load_sheet_Inr [OF assms(1)] assms(2) obtain seconds where
    df: "rows df = map (\<lambda>r. with_date r (1000000 * seconds)) (join_on_well (readings s n c) (keys s opts))"
    by auto
  let ?j = "r0\<lparr>identity := identity r0 @ key_columns k\<rparr>"
  have "?j \<in> set (join_on_well (readings s n c) (keys s opts))"
    unfolding set_join_on_well using assms(3,4,5) by blast
  then have "with_date ?j (1000000 * seconds) \<in> set (rows df)"
    unfolding df by simp
  moreover have "well (with_date ?j (1000000 * seconds)) = well r0 \<and>
      absorbance (with_date ?j (1000000 * seconds)) = absorbance r0 \<and>
      identity (with_date ?j (1000000 * seconds)) = identity r0 @ key_columns k"
    by (simp add: with_date_sel)
  ultimately show ?thesis by blast
qed


text \<open>
  Claim C10.  When the join with the key is requested, it is an inner join on \<open>well\<close>:
  every row of the resulting series is a reading paired with a row of the key of its
  sheet that has its well, every such pair is in the series, and the frame of a sheet
  holds no row with the well of a reading that has no match in the key: that reading is
  dropped.
\<close>

theorem load_tecan_inner_join:
  assumes "load_tecan rd strptime files n c (Some opts) = Inr out" and "opts \<noteq> []"
  shows
   "(\<forall>r \<in> set out. \<exists>f \<in> set files. \<exists>s \<in> set (rd f).
       \<exists>r0 \<in> set (readings s (default_to 4 n) (default_to ''A:AE'' c)). \<exists>k \<in> set (keys s opts).
         key_well k = well r0 \<and> well r = well r0 \<and> absorbance r = absorbance r0 \<and>
         identity r = identity r0 @ key_columns k) \<and>
    (\<forall>f \<in> set files. \<forall>s \<in> set (rd f).
       \<forall>r0 \<in> set (readings s (default_to 4 n) (default_to ''A:AE'' c)). \<forall>k \<in> set (keys s opts).
         key_well k = well r0 \<longrightarrow>
         (\<exists>r \<in> set out. well r = well r0 \<and> absorbance r = absorbance r0 \<and>
            identity r = identity r0 @ key_columns k)) \<and>
    (\<forall>f \<in> set files. \<forall>s \<in> set (rd f). \<exists>df.
       load_sheet strptime (default_to 4 n) (default_to ''A:AE'' c) (Some opts) s = Inr df \<and>
       set (rows df) \<subseteq> dated_row.truncate ` set out \<and>
       (\<forall>r0 \<in> set (readings s (default_to 4 n) (default_to ''A:AE'' c)).
          well r0 \<notin> key_well ` set (keys s opts) \<longrightarrow> well r0 \<notin> well ` set (rows df)))"
proof (intro conjI ballI impI)
  let ?n = "default_to 4 n" and ?c = "default_to ''A:AE'' c"
  note rows = load_tecan_rows [OF assms(1)]
  {
    fix r assume "r \<in> set out"
    with rows obtain f s df where f: "f \<in> set files" and s: "s \<in> set (rd f)"
      and l: "load_sheet strptime ?n ?c (Some opts) s = Inr df"
      and r: "dated_row.truncate r \<in> set (rows df)" by blast
    from load_sheet_join_sound [OF l assms(2) r] obtain r0 k where
      "r0 \<in> set (readings s ?n ?c)" "k \<in> set (keys s opts)"
      "key_well k = well r0 \<and> well r = well r0 \<and> absorbance r = absorbance r0 \<and>
         identity r = identity r0 @ key_columns k"
      unfolding truncate_sel by blast
    with f s show "\<exists>f \<in> set files. \<exists>s \<in> set (rd f).
       \<exists>r0 \<in> set (readings s ?n ?c). \<exists>k \<in> set (keys s opts).
         key_well k = well r0 \<and> well r = well r0 \<and> absorbance r = absorbance r0 \<and>
         identity r = identity r0 @ key_columns k"
      by blast
  }
  {
    fix f s r0 k
    assume f: "f \<in> set files" and s: "s \<in> set (rd f)" and r0: "r0 \<in> set (readings s ?n ?c)"
      and k: "k \<in> set (keys s opts)" and m: "key_well k = well r0"
    from rows f s obtain df where l: "load_sheet strptime ?n ?c (Some opts) s = Inr df"
      and sub: "set (rows df) \<subseteq> dated_row.truncate ` set out" by blast
    from load_sheet_join_complete [OF l assms(2) r0 k m] obtain x where x: "x \<in> set (rows df)"
      and xs: "well x = well r0 \<and> absorbance x = absorbance r0 \<and>
           identity x = identity r0 @ key_columns k" by blast
    from x sub obtain r where r: "r \<in> set out" and xr: "x = dated_row.truncate r" by blast
    from xs have "well r = well r0 \<and> absorbance r = absorbance r0 \<and>
           identity r = identity r0 @ key_columns k"
      unfolding xr truncate_sel .
    with r show "\<exists>r \<in> set out. well r = well r0 \<and> absorbance r = absorbance r0 \<and>
            identity r = identity r0 @ key_columns k" by blast
  }
  {
    fix f s assume f: "f \<in> set files" and s: "s \<in> set (rd f)"
    from rows f s obtain df where l: "load_sheet strptime ?n ?c (Some opts) s = Inr df"
      and sub: "set (rows df) \<subseteq> dated_row.truncate ` set out" by blast
    have "\<forall>r0 \<in> set (readings s ?n ?c).
          well r0 \<notin> key_well ` set (keys s opts) \<longrightarrow> well r0 \<notin> well ` set (rows df)"
    proof (intro ballI impI notI)
      fix r0 :: tecan_row assume no: "well r0 \<notin> key_well ` set (keys s opts)" and "well r0 \<in> well ` set (rows df)"
      then obtain x where x: "x \<in> set (rows df)" and w: "well x = well r0" by auto
      from load_sheet_join_sound [OF l assms(2) x] obtain r1 k where
        "r1 \<in> set (readings s ?n ?c)" "k \<in> set (keys s opts)" "key_well k = well r1"
        "well x = well r1" by blast
      then have "well r0 \<in> key_well ` set (keys s opts)" using w by (metis imageI)
      with no show False by contradiction
    qed
    with l sub show "\<exists>df. load_sheet strptime ?n ?c (Some opts) s = Inr df \<and>
       set (rows df) \<subseteq> dated_row.truncate ` set out \<and>
       (\<forall>r0 \<in> set (readings s ?n ?c).
          well r0 \<notin> key_well ` set (keys s opts) \<longrightarrow> well r0 \<notin> well ` set (rows df))"
      by blast
  }
qed

subsection \<open>The example workbook\<close>

lemma example_load_tecan:
  "load_tecan example_excel example_strptime [''plate.xlsx''] None None None =
     Inr [\<lparr>well = ''A1'', absorbance = [1 / 4], identity = [], date = 1704189600000000, time = 0\<rparr>,
          \<lparr>well = ''A2'', absorbance = [1 / 2], identity = [], date = 1704189600000000, time = 0\<rparr>,
          \<lparr>well = ''A1'', absorbance = [1 / 2], identity = [], date = 1704276000000000, time = 1\<rparr>,
          \<lparr>well = ''A2'', absorbance = [1], identity = [], date = 1704276000000000, time = 1\<rparr>]"
  by (simp add: load_tecan_def default_to_def example_excel_def example_sheet_def
      example_strptime_def load_sheet_def pl_concat_def elapsed_days_def with_date_def
      with_time_def total_seconds_def dated_row.truncate_def Let_def join_names_def)

lemma example_load_tecan_keys:
  "load_tecan example_excel example_strptime [''plate.xlsx''] None None
      (Some [(''n_rows'', IntOption 2)]) =
     Inr [\<lparr>well = ''A1'', absorbance = [1 / 4], identity = [''blank''],
            date = 1704189600000000, time = 0\<rparr>,
          \<lparr>well = ''A1'', absorbance = [1 / 2], identity = [''blank''],
            date = 1704276000000000, time = 1\<rparr>]"
  by (simp add: load_tecan_def default_to_def example_excel_def example_sheet_def
      example_strptime_def load_sheet_def pl_concat_def elapsed_days_def with_date_def
      with_time_def total_seconds_def dated_row.truncate_def Let_def join_on_well_def join_names_def)

lemma example_pooled_rows:
  "pooled_rows example_excel example_strptime [''plate.xlsx''] None None None =
     [\<lparr>well = ''A1'', absorbance = [1 / 2], identity = [], date = 1704276000000000\<rparr>,
      \<lparr>well = ''A2'', absorbance = [1], identity = [], date = 1704276000000000\<rparr>,
      \<lparr>well = ''A1'', absorbance = [1 / 4], identity = [], date = 1704189600000000\<rparr>,
      \<lparr>well = ''A2'', absorbance = [1 / 2], identity = [], date = 1704189600000000\<rparr>]"
  by (simp add: pooled_rows_def sheet_rows_def default_to_def example_excel_def example_sheet_def
      example_strptime_def load_sheet_def with_date_def Let_def)

text \<open>Batches without rows: with no wells to read, the series is returned without rows.\<close>

lemma example_load_tecan_no_rows:
  "load_tecan example_excel example_strptime [''plate.xlsx''] (Some 0) None None = Inr []"
  by (simp add: load_tecan_def default_to_def example_excel_def example_sheet_def
      example_strptime_def load_sheet_def pl_concat_def elapsed_days_def Let_def)

subsection \<open>The optical-density table\<close>











lemma example_get_od_df_default:
  "get_od_df example_od ''od.xlsx'' None = Inl (ColumnNotFoundError ''date'')"
  by (simp add: get_od_df_def default_to_def load_excel_def pl_concat_def example_od_def
      select_columns_def pick_def sort_frame_def)

subsection \<open>The normalised series\<close>




text \<open>
  The series of the example workbook satisfies C8: it has the four pooled rows, the two of
  the earlier sheet at 0 days and the two of the later sheet at 1 day.
\<close>

theorem load_tecan_elapsed_days_witness:
  "\<exists>out. load_tecan example_excel example_strptime [''plate.xlsx''] None None None = Inr out \<and>
     map time out = [0, 0, 1, 1] \<and>
     map date out = [1704189600000000, 1704189600000000, 1704276000000000, 1704276000000000] \<and>
     map dated_row.truncate out =
       sort_key date (pooled_rows example_excel example_strptime [''plate.xlsx''] None None None) \<and>
     Min (date ` set (pooled_rows example_excel example_strptime [''plate.xlsx''] None None None))
       = 1704189600000000 \<and>
     (\<forall>r \<in> set out. \<exists>seconds. 0 \<le> seconds \<and>
        date r - Min (date ` set (pooled_rows example_excel example_strptime [''plate.xlsx'']
                                    None None None)) = 1000000 * seconds \<and>
        time r = real_of_int seconds / 86400)"
proof -
  have m: "Min (date ` set (pooled_rows example_excel example_strptime [''plate.xlsx''] None None None))
       = 1704189600000000"
    by (simp add: example_pooled_rows)
  show ?thesis
    using load_tecan_elapsed_days [OF example_load_tecan] example_load_tecan m
    by (intro exI [of _ "[\<lparr>well = ''A1'', absorbance = [1 / 4], identity = [], date = 1704189600000000, time = 0\<rparr>,
          \<lparr>well = ''A2'', absorbance = [1 / 2], identity = [], date = 1704189600000000, time = 0\<rparr>,
          \<lparr>well = ''A1'', absorbance = [1 / 2], identity = [], date = 1704276000000000, time = 1\<rparr>,
          \<lparr>well = ''A2'', absorbance = [1], identity = [], date = 1704276000000000, time = 1 :: real\<rparr>]"])
       simp
qed

text \<open>
  In the example workbook only well \<open>A1\<close> is in the key: the readings of \<open>A2\<close> are
  dropped.
\<close>

theorem load_tecan_inner_join_witness:
  "\<exists>out. load_tecan example_excel example_strptime [''plate.xlsx''] None None
       (Some [(''n_rows'', IntOption 2)]) = Inr out \<and>
     [(''n_rows'', IntOption 2)] \<noteq> [] \<and>
     (\<forall>r \<in> set out. \<exists>f \<in> set [''plate.xlsx'']. \<exists>s \<in> set (example_excel f).
        \<exists>r0 \<in> set (readings s (default_to 4 None) (default_to ''A:AE'' None)).
        \<exists>k \<in> set (keys s [(''n_rows'', IntOption 2)]).
          key_well k = well r0 \<and> well r = well r0 \<and> absorbance r = absorbance r0 \<and>
          identity r = identity r0 @ key_columns k) \<and>
     well ` set out = {''A1''}"
proof -
  have opts: "[(''n_rows'', IntOption 2)] \<noteq> []" by simp
  from load_tecan_inner_join [OF example_load_tecan_keys opts]
  have "\<forall>r \<in> set [\<lparr>well = ''A1'', absorbance = [1 / 4], identity = [''blank''],
            date = 1704189600000000, time = 0\<rparr>,
          \<lparr>well = ''A1'', absorbance = [1 / 2], identity = [''blank''],
            date = 1704276000000000, time = 1 :: real\<rparr>].
        \<exists>f \<in> set [''plate.xlsx'']. \<exists>s \<in> set (example_excel f).
        \<exists>r0 \<in> set (readings s (default_to 4 None) (default_to ''A:AE'' None)).
        \<exists>k \<in> set (keys s [(''n_rows'', IntOption 2)]).
          key_well k = well r0 \<and> well r = well r0 \<and> absorbance r = absorbance r0 \<and>
          identity r = identity r0 @ key_columns k"
    by (rule conjunct1)
  moreover have "well ` set [\<lparr>well = ''A1'', absorbance = [1 / 4], identity = [''blank''],
            date = 1704189600000000, time = 0\<rparr>,
          \<lparr>well = ''A1'', absorbance = [1 / 2], identity = [''blank''],
            date = 1704276000000000, time = 1 :: real\<rparr>] = {''A1''}"
    by simp
  ultimately show ?thesis using example_load_tecan_keys opts by blast
qed

section \<open>Proofs: the dry-weight summary\<close>

subsection \<open>Grouping\<close>

lemma group_rows_distinct:
  "distinct (map fst acc) \<Longrightarrow> distinct (map fst (group_rows key rs acc))"
proof (induction rs arbitrary: acc)
  case Nil
  then show ?case by simp
next
  case (Cons r rs)
  show ?case
  proof (cases "map_of acc (key r)")
    case None
    then have "key r \<notin> fst ` set acc" by (simp add: map_of_eq_None_iff)
    then have "distinct (map fst (acc @ [(key r, [r])]))" using Cons.prems by simp
    from Cons.IH [OF this] show ?thesis using None by simp
  next
    case (Some g)
    have "distinct (map fst (AList.update (key r) (g @ [r]) acc))"
      using Cons.prems by (rule distinct_update)
    from Cons.IH [OF this] show ?thesis using Some by simp
  qed
qed

lemma group_rows_dom:
  "fst ` set (group_rows key rs acc) = fst ` set acc \<union> key ` set rs"
proof (induction rs arbitrary: acc)
  case Nil
  then show ?case by simp
next
  case (Cons r rs)
  show ?case
  proof (cases "map_of acc (key r)")
    case None
    then show ?thesis by (auto simp: Cons.IH)
  next
    case (Some g)
    then have "key r \<in> fst ` set acc" by (metis map_of_eq_None_iff option.distinct(1))
    then show ?thesis using Some by (auto simp: Cons.IH dom_update)
  qed
qed

lemma group_rows_lookup:
  "distinct (map fst acc) \<Longrightarrow>
   map_of (group_rows key rs acc) k = Some g \<Longrightarrow>
   g = (case map_of acc k of None \<Rightarrow> [] | Some g0 \<Rightarrow> g0) @ filter (\<lambda>r. key r = k) rs"
proof (induction rs arbitrary: acc)
  case Nil
  then show ?case by simp
next
  case (Cons r rs)
  show ?case
  proof (cases "map_of acc (key r)")
    case None
    then have nk: "key r \<notin> fst ` set acc" by (simp add: map_of_eq_None_iff)
    then have d: "distinct (map fst (acc @ [(key r, [r])]))" using Cons.prems(1) by simp
    have l: "map_of (group_rows key rs (acc @ [(key r, [r])])) k = Some g"
      using Cons.prems(2) None by simp
    have m: "map_of (acc @ [(key r, [r])]) k = (if k = key r then Some [r] else map_of acc k)"
      using None by (auto simp: map_add_def split: option.splits)
    from Cons.IH [OF d l] show ?thesis
      unfolding m using None by (auto split: option.splits)
  next
    case (Some g0)
    have d: "distinct (map fst (AList.update (key r) (g0 @ [r]) acc))"
      using Cons.prems(1) by (rule distinct_update)
    have l: "map_of (group_rows key rs (AList.update (key r) (g0 @ [r]) acc)) k = Some g"
      using Cons.prems(2) Some by simp
    from Cons.IH [OF d l] show ?thesis
      using Some by (auto simp: update_conv' split: option.splits)
  qed
qed

lemma group_by_eq:
  "group_by key table =
     map (\<lambda>k. (k, filter (\<lambda>r. key r = k) table)) (map fst (group_by key table))"
proof -
  have d: "distinct (map fst (group_by key table))"
    unfolding group_by_def by (rule group_rows_distinct) simp
  have "\<forall>p \<in> set (group_by key table). p = (fst p, filter (\<lambda>r. key r = fst p) table)"
  proof
    fix p assume p: "p \<in> set (group_by key table)"
    then have "map_of (group_by key table) (fst p) = Some (snd p)"
      using d by simp
    then have "snd p = filter (\<lambda>r. key r = fst p) table"
      unfolding group_by_def using group_rows_lookup [of "[]" key table "fst p" "snd p"] by simp
    then show "p = (fst p, filter (\<lambda>r. key r = fst p) table)"
      by (metis prod.collapse)
  qed
  then have "map (\<lambda>p. p) (group_by key table) =
      map (\<lambda>p. (fst p, filter (\<lambda>r. key r = fst p) table)) (group_by key table)"
    by (intro map_cong) auto
  then show ?thesis by (simp add: comp_def)
qed

lemma group_by_keys:
  "distinct (map fst (group_by key table))" "set (map fst (group_by key table)) = key ` set table"
  unfolding group_by_def using group_rows_distinct [of "[]" key table] group_rows_dom [of key table "[]"]
  by simp_all


subsection \<open>Sorting the groups\<close>

lemma insort_key_map:
  "insort_key f (F x) (map F xs) = map F (insort_key (\<lambda>y. f (F y)) x xs)"
  by (induction xs) simp_all

lemma sort_key_map: "sort_key f (map F xs) = map F (sort_key (\<lambda>y. f (F y)) xs)"
  by (induction xs) (simp_all add: insort_key_map)

lemma sort_distinct_eq:
  fixes ks :: "int list"
  assumes "distinct ks"
  shows "sort_key (\<lambda>k. k) ks = sorted_list_of_set (set ks)"
proof (rule sorted_distinct_set_unique)
  show "sorted (sort_key (\<lambda>k. k) ks)" using sorted_sort_key [of "\<lambda>k. k" ks] by simp
  show "distinct (sort_key (\<lambda>k. k) ks)" using assms by simp
  show "sorted (sorted_list_of_set (set ks))" by simp
  show "distinct (sorted_list_of_set (set ks))" by simp
  show "set (sort_key (\<lambda>k. k) ks) = set (sorted_list_of_set (set ks))" by simp
qed

lemma hd_sorted_list_of_set:
  fixes A :: "int set"
  assumes "finite A" "A \<noteq> {}"
  shows "hd (sorted_list_of_set A) = Min A"
  using sorted_list_of_set_nonempty [OF assms] by simp

subsection \<open>The summary\<close>

lemma get_dw_df_eq:
  assumes "load_excel read_excel file (Some [''type'', ''Biomass (g/L)'', ''date'']) = Inr table"
  shows "get_dw_df read_excel file = Inr (biomass_summary (rows table))"
proof -
  define vss where "vss = filter (\<lambda>r. dw_type r = ''VSS'') (rows table)"
  define F where "F = (\<lambda>d. \<lparr>agg_date = d,
      agg_biomass = mean (map dw_biomass (filter (\<lambda>r. dw_date r = d) vss)),
      agg_std = std (map dw_biomass (filter (\<lambda>r. dw_date r = d) vss))\<rparr>)"
  define ks where "ks = map fst (group_by dw_date vss)"
  define stamps where "stamps = sorted_list_of_set (dw_date ` set vss)"
  have dk: "distinct ks" and sk: "set ks = dw_date ` set vss"
    unfolding ks_def using group_by_keys [of dw_date vss] by simp_all
  have g: "group_by dw_date vss = map (\<lambda>k. (k, filter (\<lambda>r. dw_date r = k) vss)) ks"
    unfolding ks_def by (rule group_by_eq)
  have agg: "map (\<lambda>(d, g). \<lparr>agg_date = d, agg_biomass = mean (map dw_biomass g),
                               agg_std = std (map dw_biomass g)\<rparr>) (group_by dw_date vss)
      = map F ks"
    unfolding g by (simp add: F_def comp_def)
  have "sort_key agg_date (map F ks) = map F (sort_key (\<lambda>k. agg_date (F k)) ks)"
    by (rule sort_key_map)
  also have "(\<lambda>k. agg_date (F k)) = (\<lambda>k. k)" by (simp add: F_def)
  also have "sort_key (\<lambda>k. k) ks = stamps"
    unfolding stamps_def sk [symmetric] using dk by (rule sort_distinct_eq)
  finally have sorted: "sort_key agg_date (map F ks) = map F stamps" .
  define S where "S = sort_key agg_date
      (map (\<lambda>(d, g). \<lparr>agg_date = d, agg_biomass = mean (map dw_biomass g),
                        agg_std = std (map dw_biomass g)\<rparr>) (group_by dw_date vss))"
  have run: "get_dw_df read_excel file =
      (case S of [] \<Rightarrow> Inr []
       | first # _ \<Rightarrow>
           Inr (map (\<lambda>r. \<lparr>agg_date = agg_date r, agg_biomass = agg_biomass r,
                           agg_std = agg_std r, agg_time = agg_date r - agg_date first\<rparr>) S))"
    unfolding S_def vss_def by (simp add: get_dw_df_def Let_def assms(1))
  have S: "S = map F stamps" unfolding S_def agg sorted ..
  have summary: "biomass_summary (rows table) =
      map (\<lambda>r. \<lparr>agg_date = agg_date r, agg_biomass = agg_biomass r, agg_std = agg_std r,
                 agg_time = agg_date r - Min (dw_date ` set vss)\<rparr>) (map F stamps)"
    by (simp add: biomass_summary_def Let_def vss_def stamps_def F_def comp_def)
  show ?thesis
  proof (cases stamps)
    case Nil
    then show ?thesis unfolding run S summary by simp
  next
    case (Cons d0 rest)
    then have ne: "dw_date ` set vss \<noteq> {}" unfolding stamps_def by auto
    have "hd stamps = Min (dw_date ` set vss)"
      unfolding stamps_def using ne by (intro hd_sorted_list_of_set) simp_all
    then have d0: "d0 = Min (dw_date ` set vss)" using Cons by simp
    have first: "agg_date (F d0) = Min (dw_date ` set vss)"
      by (simp add: F_def d0)
    show ?thesis unfolding run S summary Cons by (simp add: first)
  qed
qed

lemma example_dw_table:
  "load_excel example_dw ''dw.xlsx'' (Some [''type'', ''Biomass (g/L)'', ''date'']) =
     Inr \<lparr>col_names = [''type'', ''Biomass (g/L)'', ''date''],
          rows = [\<lparr>dw_type = ''VSS'', dw_biomass = 3, dw_date = 172800000000\<rparr>,
                  \<lparr>dw_type = ''TSS'', dw_biomass = 9, dw_date = 86400000000\<rparr>,
                  \<lparr>dw_type = ''VSS'', dw_biomass = 1, dw_date = 86400000000\<rparr>,
                  \<lparr>dw_type = ''VSS'', dw_biomass = 2, dw_date = 86400000000\<rparr>]\<rparr>"
  by (simp add: load_excel_def pl_concat_def example_dw_def)

lemma example_get_dw_df:
  "get_dw_df example_dw ''dw.xlsx'' =
     Inr [\<lparr>agg_date = 86400000000, agg_biomass = Number (3 / 2), agg_std = Number (sqrt (1 / 2)),
            agg_time = 0\<rparr>,
          \<lparr>agg_date = 172800000000, agg_biomass = Number 3, agg_std = Null,
            agg_time = 86400000000\<rparr>]"
  by (simp add: get_dw_df_def example_dw_table group_by_def mean_def std_def power2_eq_square)

lemma example_tss_table:
  "load_excel example_dw ''tss.xlsx'' (Some [''type'', ''Biomass (g/L)'', ''date'']) =
     Inr \<lparr>col_names = [''type'', ''Biomass (g/L)'', ''date''],
          rows = [\<lparr>dw_type = ''TSS'', dw_biomass = 9, dw_date = 86400000000\<rparr>]\<rparr>"
  by (simp add: load_excel_def pl_concat_def example_dw_def)

lemma example_get_dw_df_tss: "get_dw_df example_dw ''tss.xlsx'' = Inr []"
  by (simp add: get_dw_df_def example_tss_table group_by_def)


text \<open>
  Claim C7.  Given a raw dry-weight table, \<open>get_dw_df\<close> returns the summary of the
  specification: the rows of type \<open>VSS\<close>, grouped by timestamp, with the mean and the
  standard deviation of the concentration of each timestamp, in ascending order of
  timestamp, and the elapsed time since the earliest timestamp of the filtered rows as the
  raw difference of the timestamps (not in days).  A table without a row of type \<open>VSS\<close>
  has the summary without rows.
\<close>

theorem get_dw_df_summary:
  assumes "load_excel read_excel file (Some [''type'', ''Biomass (g/L)'', ''date'']) = Inr table"
  shows "get_dw_df read_excel file = Inr (biomass_summary (rows table))"
  using assms by (rule get_dw_df_eq)

text \<open>
  The summaries of the two example tables, computed: two timestamps, a day apart, for the
  first; no row for the second, which has no row of type \<open>VSS\<close>.
\<close>

theorem get_dw_df_summary_witness:
  "load_excel example_dw ''dw.xlsx'' (Some [''type'', ''Biomass (g/L)'', ''date'']) =
     Inr \<lparr>col_names = [''type'', ''Biomass (g/L)'', ''date''],
          rows = [\<lparr>dw_type = ''VSS'', dw_biomass = 3, dw_date = 172800000000\<rparr>,
                  \<lparr>dw_type = ''TSS'', dw_biomass = 9, dw_date = 86400000000\<rparr>,
                  \<lparr>dw_type = ''VSS'', dw_biomass = 1, dw_date = 86400000000\<rparr>,
                  \<lparr>dw_type = ''VSS'', dw_biomass = 2, dw_date = 86400000000\<rparr>]\<rparr> \<and>
   biomass_summary
         [\<lparr>dw_type = ''VSS'', dw_biomass = 3, dw_date = 172800000000\<rparr>,
          \<lparr>dw_type = ''TSS'', dw_biomass = 9, dw_date = 86400000000\<rparr>,
          \<lparr>dw_type = ''VSS'', dw_biomass = 1, dw_date = 86400000000\<rparr>,
          \<lparr>dw_type = ''VSS'', dw_biomass = 2, dw_date = 86400000000\<rparr>] =
     [\<lparr>agg_date = 86400000000, agg_biomass = Number (3 / 2), agg_std = Number (sqrt (1 / 2)),
        agg_time = 0\<rparr>,
      \<lparr>agg_date = 172800000000, agg_biomass = Number 3, agg_std = Null,
        agg_time = 86400000000\<rparr>] \<and>
   load_excel example_dw ''tss.xlsx'' (Some [''type'', ''Biomass (g/L)'', ''date'']) =
     Inr \<lparr>col_names = [''type'', ''Biomass (g/L)'', ''date''],
          rows = [\<lparr>dw_type = ''TSS'', dw_biomass = 9, dw_date = 86400000000\<rparr>]\<rparr> \<and>
   get_dw_df example_dw ''tss.xlsx'' = Inr [] \<and>
   biomass_summary [\<lparr>dw_type = ''TSS'', dw_biomass = 9, dw_date = 86400000000\<rparr>] = []"
  using get_dw_df_summary [OF example_dw_table] get_dw_df_summary [OF example_tss_table]
    example_dw_table example_tss_table example_get_dw_df example_get_dw_df_tss
  by simp


lemma biomass_summary_row:
  assumes "r \<in> set (biomass_summary table)"
  shows "agg_date r \<in> dw_date ` set (filter (\<lambda>y. dw_type y = ''VSS'') table) \<and>
         agg_biomass r = mean (map dw_biomass
            (filter (\<lambda>y. dw_type y = ''VSS'' \<and> dw_date y = agg_date r) table)) \<and>
         agg_std r = std (map dw_biomass
            (filter (\<lambda>y. dw_type y = ''VSS'' \<and> dw_date y = agg_date r) table))"
proof -
  from assms obtain d where d: "d \<in> dw_date ` set (filter (\<lambda>y. dw_type y = ''VSS'') table)"
    and r: "r = \<lparr>agg_date = d,
       agg_biomass = mean (map dw_biomass (filter (\<lambda>y. dw_date y = d)
                              (filter (\<lambda>y. dw_type y = ''VSS'') table))),
       agg_std = std (map dw_biomass (filter (\<lambda>y. dw_date y = d)
                              (filter (\<lambda>y. dw_type y = ''VSS'') table))),
       agg_time = d - Min (dw_date ` set (filter (\<lambda>y. dw_type y = ''VSS'') table))\<rparr>"
    unfolding biomass_summary_def Let_def by auto
  have f: "filter (\<lambda>y. dw_date y = d) (filter (\<lambda>y. dw_type y = ''VSS'') table)
      = filter (\<lambda>y. dw_type y = ''VSS'' \<and> dw_date y = d) table"
    by (simp add: conj_commute)
  show ?thesis using d unfolding r f by simp
qed

lemma biomass_summary_dates:
  "agg_date ` set (biomass_summary table) = dw_date ` set (filter (\<lambda>y. dw_type y = ''VSS'') table)"
  unfolding biomass_summary_def Let_def by (simp add: image_image del: set_filter)

text \<open>
  Claim C6, as stated, fails: it says that the standard deviation of a single replicate
  is NaN.  In the example table the later timestamp has one replicate, and the standard
  deviation of its row is \<open>null\<close>, the missing value, which is not the float NaN.
\<close>

theorem get_dw_df_single_replicate_counterexample:
  "\<exists>table out r.
     load_excel example_dw ''dw.xlsx'' (Some [''type'', ''Biomass (g/L)'', ''date'']) = Inr table \<and>
     filter (\<lambda>y. dw_type y = ''VSS'' \<and> dw_date y = 172800000000) (rows table) =
       [\<lparr>dw_type = ''VSS'', dw_biomass = 3, dw_date = 172800000000\<rparr>] \<and>
     get_dw_df example_dw ''dw.xlsx'' = Inr out \<and>
     r \<in> set out \<and> agg_date r = 172800000000 \<and> agg_std r = Null \<and> agg_std r \<noteq> NaN"
proof (intro exI conjI)
  let ?r = "\<lparr>agg_date = 172800000000, agg_biomass = Number 3, agg_std = Null,
            agg_time = 86400000000\<rparr>"
  let ?out = "[\<lparr>agg_date = 86400000000, agg_biomass = Number (3 / 2),
            agg_std = Number (sqrt (1 / 2)), agg_time = 0\<rparr>, ?r]"
  let ?t = "\<lparr>col_names = [''type'', ''Biomass (g/L)'', ''date''],
          rows = [\<lparr>dw_type = ''VSS'', dw_biomass = 3, dw_date = 172800000000\<rparr>,
                  \<lparr>dw_type = ''TSS'', dw_biomass = 9, dw_date = 86400000000\<rparr>,
                  \<lparr>dw_type = ''VSS'', dw_biomass = 1, dw_date = 86400000000\<rparr>,
                  \<lparr>dw_type = ''VSS'', dw_biomass = 2, dw_date = 86400000000\<rparr>]\<rparr>"
  show "load_excel example_dw ''dw.xlsx'' (Some [''type'', ''Biomass (g/L)'', ''date'']) = Inr ?t"
    by (rule example_dw_table)
  show "filter (\<lambda>y. dw_type y = ''VSS'' \<and> dw_date y = 172800000000) (rows ?t) =
       [\<lparr>dw_type = ''VSS'', dw_biomass = 3, dw_date = 172800000000\<rparr>]"
    by simp
  show "get_dw_df example_dw ''dw.xlsx'' = Inr ?out" by (rule example_get_dw_df)
  show "?r \<in> set ?out" by simp
  show "agg_date ?r = 172800000000" by simp
  show "agg_std ?r = Null" by simp
  show "agg_std ?r \<noteq> NaN" by simp
qed

text \<open>
  Claim C6, amended.  Where exactly one replicate of the volatile suspended solids has a
  given timestamp, the call is no error, the summary has a row for that timestamp, and in
  every such row the standard deviation is \<open>null\<close>, the missing value: not NaN, and not
  zero; the mean is the value of the replicate.
\<close>

theorem get_dw_df_single_replicate:
  assumes "load_excel read_excel file (Some [''type'', ''Biomass (g/L)'', ''date'']) = Inr table"
    and "filter (\<lambda>y. dw_type y = ''VSS'' \<and> dw_date y = dw_date x) (rows table) = [x]"
  shows "\<exists>out. get_dw_df read_excel file = Inr out \<and>
           (\<exists>r \<in> set out. agg_date r = dw_date x) \<and>
           (\<forall>r \<in> set out. agg_date r = dw_date x \<longrightarrow>
              agg_std r = Null \<and> agg_std r \<noteq> NaN \<and> agg_std r \<noteq> Number 0 \<and>
              agg_biomass r = Number (dw_biomass x))"
proof -
  have "x \<in> set (filter (\<lambda>y. dw_type y = ''VSS'' \<and> dw_date y = dw_date x) (rows table))"
    unfolding assms(2) by simp
  then have x: "x \<in> set (rows table)" "dw_type x = ''VSS''" by simp_all
  from get_dw_df_eq [OF assms(1)]
  have run: "get_dw_df read_excel file = Inr (biomass_summary (rows table))" .
  have "dw_date x \<in> agg_date ` set (biomass_summary (rows table))"
    unfolding biomass_summary_dates using x by auto
  then have 1: "\<exists>r \<in> set (biomass_summary (rows table)). agg_date r = dw_date x" by auto
  have 2: "\<forall>r \<in> set (biomass_summary (rows table)). agg_date r = dw_date x \<longrightarrow>
              agg_std r = Null \<and> agg_std r \<noteq> NaN \<and> agg_std r \<noteq> Number 0 \<and>
              agg_biomass r = Number (dw_biomass x)"
  proof (intro ballI impI)
    fix r assume r: "r \<in> set (biomass_summary (rows table))" and d: "agg_date r = dw_date x"
    from biomass_summary_row [OF r]
    show "agg_std r = Null \<and> agg_std r \<noteq> NaN \<and> agg_std r \<noteq> Number 0 \<and>
          agg_biomass r = Number (dw_biomass x)"
      unfolding d assms(2) by (simp add: std_def mean_def)
  qed
  from run 1 2 show ?thesis by blast
qed

text \<open>
  In the example table the later timestamp has one replicate, of 3 g/L.
\<close>

theorem get_dw_df_single_replicate_witness:
  "load_excel example_dw ''dw.xlsx'' (Some [''type'', ''Biomass (g/L)'', ''date'']) =
     Inr \<lparr>col_names = [''type'', ''Biomass (g/L)'', ''date''],
          rows = [\<lparr>dw_type = ''VSS'', dw_biomass = 3, dw_date = 172800000000\<rparr>,
                  \<lparr>dw_type = ''TSS'', dw_biomass = 9, dw_date = 86400000000\<rparr>,
                  \<lparr>dw_type = ''VSS'', dw_biomass = 1, dw_date = 86400000000\<rparr>,
                  \<lparr>dw_type = ''VSS'', dw_biomass = 2, dw_date = 86400000000\<rparr>]\<rparr> \<and>
   (\<exists>out. get_dw_df example_dw ''dw.xlsx'' = Inr out \<and>
      (\<exists>r \<in> set out. agg_date r = 172800000000) \<and>
      (\<forall>r \<in> set out. agg_date r = 172800000000 \<longrightarrow>
         agg_std r = Null \<and> agg_std r \<noteq> NaN \<and> agg_std r \<noteq> Number 0 \<and>
         agg_biomass r = Number 3))"
proof -
  let ?x = "\<lparr>dw_type = ''VSS'', dw_biomass = 3, dw_date = 172800000000\<rparr>"
  let ?t = "\<lparr>col_names = [''type'', ''Biomass (g/L)'', ''date''],
          rows = [\<lparr>dw_type = ''VSS'', dw_biomass = 3, dw_date = 172800000000\<rparr>,
                  \<lparr>dw_type = ''TSS'', dw_biomass = 9, dw_date = 86400000000\<rparr>,
                  \<lparr>dw_type = ''VSS'', dw_biomass = 1, dw_date = 86400000000\<rparr>,
                  \<lparr>dw_type = ''VSS'', dw_biomass = 2, dw_date = 86400000000\<rparr>]\<rparr>"
  have single: "filter (\<lambda>y. dw_type y = ''VSS'' \<and> dw_date y = dw_date ?x) (rows ?t) = [?x]"
    by simp
  from get_dw_df_single_replicate [OF example_dw_table single] example_dw_table
  show ?thesis by simp
qed

end
